theory Spec2Isabelle
  imports Main "HOL-Library.Word"
begin

section \<open>Go runtime and standard library, as far as the code uses it\<close>

text \<open>
  A Go string is a byte sequence, here a \<open>string\<close>. A pointer is an \<open>option\<close>
  (\<open>None\<close> is nil) and reading a field through nil is a run-time panic, which the
  model returns as a value.
\<close>

datatype go_panic = NilPointerDereference

text \<open>
  A Go \<open>error\<close> value: an error with a message, a \<open>usererror.BadRequest\<close>, the
  store's version conflict, or \<open>fmt.Errorf\<close> wrapping another error with \<open>%w\<close>.
  A nil error is \<open>None\<close>.
\<close>

datatype error =
    Error string
  | BadRequest string
  | ErrVersionConflict
  | Errorf string error

text \<open>\<open>strings.HasPrefix(s, prefix)\<close> and the slice expression \<open>s[len(prefix):]\<close>.\<close>

definition HasPrefix :: "string \<Rightarrow> string \<Rightarrow> bool" where
  "HasPrefix s pre = (take (length pre) s = pre)"

text \<open>\<open>strings.Join(elems, sep)\<close>.\<close>

fun Join :: "string list \<Rightarrow> string \<Rightarrow> string" where
  "Join [] sep = []"
| "Join [x] sep = x"
| "Join (x # y # ys) sep = x @ sep @ Join (y # ys) sep"

text \<open>\<open>strconv.Itoa\<close>: the decimal rendering of an integer.\<close>

definition digit_char :: "nat \<Rightarrow> char" where
  "digit_char n = ''0123456789'' ! (n mod 10)"

fun nat_digits :: "nat \<Rightarrow> string" where
  "nat_digits n = (if n < 10 then [digit_char n] else nat_digits (n div 10) @ [digit_char n])"

declare nat_digits.simps [simp del]

definition Itoa :: "int \<Rightarrow> string" where
  "Itoa i = (if i < 0 then CHR ''-'' # nat_digits (nat (- i)) else nat_digits (nat i))"

text \<open>
  \<open>fmt.Sprintf\<close> belongs to Go's standard library and not to the program. The
  functions that format a message take it as the parameter \<open>Sprintf\<close>, from the format
  and its arguments to the text; an argument is a string (for the verbs \<open>%s\<close> and
  \<open>%q\<close>), an integer (for \<open>%d\<close>) or a slice of strings (for \<open>%v\<close>).
\<close>

datatype fmt_arg = ArgString string | ArgInt int | ArgStrings "string list"

type_synonym sprintf = "string \<Rightarrow> fmt_arg list \<Rightarrow> string"

section \<open>Types of the pull-request domain\<close>

datatype PullReqReviewDecision =
    PullReqReviewDecisionPending
  | PullReqReviewDecisionApproved
  | PullReqReviewDecisionChangeReq
  | PullReqReviewDecisionReviewed

datatype CheckStatus =
    CheckStatusPending
  | CheckStatusRunning
  | CheckStatusSuccess
  | CheckStatusFailure
  | CheckStatusError

type_synonym MergeMethod = string

record PrincipalInfo =
  DisplayName :: string

record PullReqReviewer =
  Reviewer :: PrincipalInfo
  ReviewDecision :: PullReqReviewDecision
  SHA :: string

text \<open>
  The fields of \<open>types.PullReq\<close> that the code reads or writes. \<open>ActivitySeq\<close> and
  \<open>Version\<close> are \<open>int64\<close> counters that the code increments.
\<close>

record PullReq =
  Number :: int
  SourceRepoID :: int
  TargetRepoID :: int
  SourceSHA :: string
  UnresolvedCount :: int
  Title :: string
  Description :: string
  Edited :: int
  ActivitySeq :: "64 word"
  Version :: "64 word"

record CheckResult =
  Identifier :: string
  Status :: CheckStatus

subsection \<open>Code-owner evaluation\<close>

record OwnerEvaluation =
  Owner :: PrincipalInfo
  ReviewDecision :: PullReqReviewDecision
  ReviewSHA :: string

record UserGroupOwnerEvaluation =
  Evaluations :: "OwnerEvaluation list"

record EvaluationEntry =
  Pattern :: string
  OwnerEvaluations :: "OwnerEvaluation list"
  UserGroupOwnerEvaluations :: "UserGroupOwnerEvaluation list"

record Evaluation =
  EvaluationEntries :: "EvaluationEntry list"

section \<open>getCodeOwnerApprovalStatus\<close>

text \<open>
  The loop over one list of owner evaluations. \<open>None\<close> is the early
  \<open>return enum.PullReqReviewDecisionChangeReq, nil\<close>; otherwise the approvers
  collected so far, in order.
\<close>

fun ownersLoop :: "OwnerEvaluation list \<Rightarrow> OwnerEvaluation list \<Rightarrow> OwnerEvaluation list option" where
  "ownersLoop [] approvers = Some approvers"
| "ownersLoop (ev # evs) approvers =
     (if OwnerEvaluation.ReviewDecision ev = PullReqReviewDecisionChangeReq then None
      else if OwnerEvaluation.ReviewDecision ev = PullReqReviewDecisionApproved
        then ownersLoop evs (approvers @ [ev])
      else ownersLoop evs approvers)"

fun userGroupsLoop ::
  "UserGroupOwnerEvaluation list \<Rightarrow> OwnerEvaluation list \<Rightarrow> OwnerEvaluation list option" where
  "userGroupsLoop [] approvers = Some approvers"
| "userGroupsLoop (u # us) approvers =
     (case ownersLoop (Evaluations u) approvers of
        None \<Rightarrow> None
      | Some approvers' \<Rightarrow> userGroupsLoop us approvers')"

definition getCodeOwnerApprovalStatus ::
  "EvaluationEntry \<Rightarrow> PullReqReviewDecision \<times> OwnerEvaluation list" where
  "getCodeOwnerApprovalStatus entry =
     (case ownersLoop (OwnerEvaluations entry) [] of
        None \<Rightarrow> (PullReqReviewDecisionChangeReq, [])
      | Some approvers \<Rightarrow>
          (case userGroupsLoop (UserGroupOwnerEvaluations entry) approvers of
             None \<Rightarrow> (PullReqReviewDecisionChangeReq, [])
           | Some approvers' \<Rightarrow>
               if length approvers' > 0 then (PullReqReviewDecisionApproved, approvers')
               else (PullReqReviewDecisionPending, [])))"

section \<open>Rule violations\<close>

text \<open>
  Modelled from the spec: \<open>types.RuleViolations\<close> and its method \<open>Addf\<close> are not
  among the source files. The spec describes an ordered list of (code, formatted
  message) pairs to which an evaluation appends; \<open>Addf\<close> appends one violation whose
  message is the format applied to the arguments.
\<close>

record Violation =
  Code :: string
  Message :: string

record RuleViolations =
  Violations :: "Violation list"

definition Addf :: "sprintf \<Rightarrow> RuleViolations \<Rightarrow> string \<Rightarrow> string \<Rightarrow> fmt_arg list \<Rightarrow> RuleViolations" where
  "Addf Sprintf violations code format params =
     violations\<lparr>Violations := Violations violations @ [\<lparr>Code = code, Message = Sprintf format params\<rparr>]\<rparr>"

section \<open>The pull-request protection rule and MergeVerify\<close>

record DefApprovals =
  RequireCodeOwners :: bool
  RequireMinimumCount :: int
  RequireLatestCommit :: bool
  RequireNoChangeRequest :: bool

record DefComments =
  RequireResolveAll :: bool

record DefStatusChecks =
  RequireIdentifiers :: "string list"

record DefMerge =
  StrategiesAllowed :: "MergeMethod list"
  DeleteBranch :: bool

record DefPullReq =
  Approvals :: DefApprovals
  Comments :: DefComments
  StatusChecks :: DefStatusChecks
  Merge :: DefMerge

text \<open>
  \<open>MergeVerifyInput\<close>: \<open>PullReq\<close>, \<open>CodeOwners\<close> and the elements of \<open>Reviewers\<close>
  are pointers. The pointers \<open>Actor\<close>, \<open>TargetRepo\<close> and \<open>SourceRepo\<close> are never
  read by \<open>MergeVerify\<close> and are left out.
\<close>

record MergeVerifyInput =
  AllowBypass :: bool
  IsRepoOwner :: bool
  PullReq :: "PullReq option"
  Reviewers :: "PullReqReviewer option list"
  Method :: MergeMethod
  CheckResults :: "CheckResult list"
  CodeOwners :: "Evaluation option"

record MergeVerifyOutput =
  DeleteSourceBranch :: bool
  AllowedMethods :: "MergeMethod list"

abbreviation codePullReqApprovalReqMinCount :: string where
  "codePullReqApprovalReqMinCount \<equiv> ''pullreq.approvals.require_minimum_count''"
abbreviation codePullReqApprovalReqMinCountLatest :: string where
  "codePullReqApprovalReqMinCountLatest \<equiv> ''pullreq.approvals.require_minimum_count:latest_commit''"
abbreviation codePullReqApprovalReqChangeRequested :: string where
  "codePullReqApprovalReqChangeRequested \<equiv> ''pullreq.approvals.require_change_requested''"
abbreviation codePullReqApprovalReqChangeRequestedOldSHA :: string where
  "codePullReqApprovalReqChangeRequestedOldSHA \<equiv>
     ''pullreq.approvals.require_change_requested_old_SHA''"
abbreviation codePullReqApprovalReqCodeOwnersNoApproval :: string where
  "codePullReqApprovalReqCodeOwnersNoApproval \<equiv>
     ''pullreq.approvals.require_code_owners:no_approval''"
abbreviation codePullReqApprovalReqCodeOwnersChangeRequested :: string where
  "codePullReqApprovalReqCodeOwnersChangeRequested \<equiv>
     ''pullreq.approvals.require_code_owners:change_requested''"
abbreviation codePullReqApprovalReqCodeOwnersNoLatestApproval :: string where
  "codePullReqApprovalReqCodeOwnersNoLatestApproval \<equiv>
     ''pullreq.approvals.require_code_owners:no_latest_approval''"
abbreviation codePullReqMergeStrategiesAllowed :: string where
  "codePullReqMergeStrategiesAllowed \<equiv> ''pullreq.merge.strategies_allowed''"
abbreviation codePullReqCommentsReqResolveAll :: string where
  "codePullReqCommentsReqResolveAll \<equiv> ''pullreq.comments.require_resolve_all''"
abbreviation codePullReqStatusChecksReqIdentifiers :: string where
  "codePullReqStatusChecksReqIdentifiers \<equiv> ''pullreq.status_checks.required_identifiers''"

subsection \<open>pullreq.approvals: the loop over the reviewers\<close>

fun reviewersLoop ::
  "sprintf \<Rightarrow> DefPullReq \<Rightarrow> PullReq option \<Rightarrow> PullReqReviewer option list \<Rightarrow>
   PrincipalInfo list \<times> RuleViolations \<Rightarrow> go_panic + PrincipalInfo list \<times> RuleViolations" where
  "reviewersLoop Sprintf v pr [] st = Inr st"
| "reviewersLoop Sprintf v pr (None # rs) st = Inl NilPointerDereference"
| "reviewersLoop Sprintf v pr (Some reviewer # rs) (approvedBy, violations) =
     (case PullReqReviewer.ReviewDecision reviewer of
        PullReqReviewDecisionApproved \<Rightarrow>
          if RequireLatestCommit (Approvals v) then
            (case pr of
               None \<Rightarrow> Inl NilPointerDereference
             | Some p \<Rightarrow>
                 if SHA reviewer \<noteq> SourceSHA p then reviewersLoop Sprintf v pr rs (approvedBy, violations)
                 else reviewersLoop Sprintf v pr rs (approvedBy @ [Reviewer reviewer], violations))
          else reviewersLoop Sprintf v pr rs (approvedBy @ [Reviewer reviewer], violations)
      | PullReqReviewDecisionChangeReq \<Rightarrow>
          if RequireNoChangeRequest (Approvals v) then
            (case pr of
               None \<Rightarrow> Inl NilPointerDereference
             | Some p \<Rightarrow>
                 if SHA reviewer = SourceSHA p then
                   reviewersLoop Sprintf v pr rs (approvedBy,
                     Addf Sprintf violations codePullReqApprovalReqChangeRequested
                       ''Reviewer %s requested changes''
                       [ArgString (DisplayName (Reviewer reviewer))])
                 else
                   reviewersLoop Sprintf v pr rs (approvedBy,
                     Addf Sprintf violations codePullReqApprovalReqChangeRequestedOldSHA
                       ''Reviewer %s requested changes for an older commit''
                       [ArgString (DisplayName (Reviewer reviewer))]))
          else reviewersLoop Sprintf v pr rs (approvedBy, violations)
      | PullReqReviewDecisionPending \<Rightarrow> reviewersLoop Sprintf v pr rs (approvedBy, violations)
      | PullReqReviewDecisionReviewed \<Rightarrow> reviewersLoop Sprintf v pr rs (approvedBy, violations))"

definition minimumCountCheck :: "sprintf \<Rightarrow> DefPullReq \<Rightarrow> PrincipalInfo list \<Rightarrow> RuleViolations \<Rightarrow> RuleViolations" where
  "minimumCountCheck Sprintf v approvedBy violations =
     (if int (length approvedBy) < RequireMinimumCount (Approvals v) then
        if RequireLatestCommit (Approvals v) then
          Addf Sprintf violations codePullReqApprovalReqMinCountLatest
            ''Insufficient number of approvals of the latest commit. Have %d but need at least %d.''
            [ArgInt (int (length approvedBy)), ArgInt (RequireMinimumCount (Approvals v))]
        else
          Addf Sprintf violations codePullReqApprovalReqMinCount
            ''Insufficient number of approvals. Have %d but need at least %d.''
            [ArgInt (int (length approvedBy)), ArgInt (RequireMinimumCount (Approvals v))]
      else violations)"

subsection \<open>pullreq.approvals: code owners\<close>

text \<open>
  \<open>slices.ContainsFunc(approvers, func(ev) bool { return ev.ReviewSHA ==
  in.PullReq.SourceSHA })\<close>: the closure reads through \<open>in.PullReq\<close> as soon as it is
  called, that is, as soon as there is an approver.
\<close>

definition latestSHAApproved :: "PullReq option \<Rightarrow> OwnerEvaluation list \<Rightarrow> go_panic + bool" where
  "latestSHAApproved pr approvers =
     (if approvers = [] then Inr False
      else case pr of
             None \<Rightarrow> Inl NilPointerDereference
           | Some p \<Rightarrow> Inr (list_ex (\<lambda>ev. ReviewSHA ev = SourceSHA p) approvers))"

fun codeOwnersLoop ::
  "sprintf \<Rightarrow> DefPullReq \<Rightarrow> PullReq option \<Rightarrow> EvaluationEntry list \<Rightarrow> RuleViolations \<Rightarrow>
   go_panic + RuleViolations" where
  "codeOwnersLoop Sprintf v pr [] violations = Inr violations"
| "codeOwnersLoop Sprintf v pr (entry # es) violations =
     (let (reviewDecision, approvers) = getCodeOwnerApprovalStatus entry in
      if reviewDecision = PullReqReviewDecisionPending then
        codeOwnersLoop Sprintf v pr es
          (Addf Sprintf violations codePullReqApprovalReqCodeOwnersNoApproval
             ''Code owners approval pending for %q'' [ArgString (Pattern entry)])
      else if reviewDecision = PullReqReviewDecisionChangeReq then
        codeOwnersLoop Sprintf v pr es
          (Addf Sprintf violations codePullReqApprovalReqCodeOwnersChangeRequested
             ''Code owners requested changes for %q'' [ArgString (Pattern entry)])
      else if \<not> RequireLatestCommit (Approvals v) then codeOwnersLoop Sprintf v pr es violations
      else
        (case latestSHAApproved pr approvers of
           Inl e \<Rightarrow> Inl e
         | Inr ok \<Rightarrow>
             if \<not> ok then
               codeOwnersLoop Sprintf v pr es
                 (Addf Sprintf violations codePullReqApprovalReqCodeOwnersNoLatestApproval
                    ''Code owners approval pending on latest commit for %q''
                    [ArgString (Pattern entry)])
             else codeOwnersLoop Sprintf v pr es violations))"

definition codeOwnersCheck ::
  "sprintf \<Rightarrow> DefPullReq \<Rightarrow> MergeVerifyInput \<Rightarrow> RuleViolations \<Rightarrow> go_panic + RuleViolations" where
  "codeOwnersCheck Sprintf v inp violations =
     (if RequireCodeOwners (Approvals v) then
        (case CodeOwners inp of
           None \<Rightarrow> Inl NilPointerDereference
         | Some evaluation \<Rightarrow>
             codeOwnersLoop Sprintf v (PullReq inp) (EvaluationEntries evaluation) violations)
      else Inr violations)"

subsection \<open>pullreq.comments\<close>

definition commentsCheck ::
  "sprintf \<Rightarrow> DefPullReq \<Rightarrow> MergeVerifyInput \<Rightarrow> RuleViolations \<Rightarrow> go_panic + RuleViolations" where
  "commentsCheck Sprintf v inp violations =
     (if RequireResolveAll (Comments v) then
        (case PullReq inp of
           None \<Rightarrow> Inl NilPointerDereference
         | Some p \<Rightarrow>
             if UnresolvedCount p > 0 then
               Inr (Addf Sprintf violations codePullReqCommentsReqResolveAll
                      ''All comments must be resolved. There are %d unresolved comments.''
                      [ArgInt (UnresolvedCount p)])
             else Inr violations)
      else Inr violations)"

subsection \<open>pullreq.status_checks\<close>

text \<open>
  The inner loop: the first check result with the required identifier decides
  \<open>succeeded\<close>, and the loop breaks there.
\<close>

fun checkResultsLoop :: "CheckResult list \<Rightarrow> string \<Rightarrow> bool" where
  "checkResultsLoop [] requiredIdentifier = False"
| "checkResultsLoop (c # cs) requiredIdentifier =
     (if Identifier c = requiredIdentifier then Status c = CheckStatusSuccess
      else checkResultsLoop cs requiredIdentifier)"

fun requireIdentifiersLoop :: "CheckResult list \<Rightarrow> string list \<Rightarrow> string list \<Rightarrow> string list" where
  "requireIdentifiersLoop results [] violating = violating"
| "requireIdentifiersLoop results (requiredIdentifier # ids) violating =
     (if \<not> checkResultsLoop results requiredIdentifier
      then requireIdentifiersLoop results ids (violating @ [requiredIdentifier])
      else requireIdentifiersLoop results ids violating)"

definition statusChecksCheck :: "sprintf \<Rightarrow> DefPullReq \<Rightarrow> MergeVerifyInput \<Rightarrow> RuleViolations \<Rightarrow> RuleViolations" where
  "statusChecksCheck Sprintf v inp violations =
     (let violatingStatusCheckIdentifiers =
            requireIdentifiersLoop (CheckResults inp) (RequireIdentifiers (StatusChecks v)) []
      in if length violatingStatusCheckIdentifiers > 0 then
           Addf Sprintf violations codePullReqStatusChecksReqIdentifiers
             ''The following status checks are required to be completed successfully: %s''
             [ArgString (Join violatingStatusCheckIdentifiers '', '')]
         else violations)"

subsection \<open>pullreq.merge\<close>

text \<open>
  \<open>enum.MergeMethods\<close>, the list of all merge methods, is not among the source files
  and is a parameter.
\<close>

definition mergeCheck ::
  "sprintf \<Rightarrow> MergeMethod list \<Rightarrow> DefPullReq \<Rightarrow> MergeVerifyInput \<Rightarrow>
   MergeVerifyOutput \<times> RuleViolations \<Rightarrow> MergeVerifyOutput \<times> RuleViolations" where
  "mergeCheck Sprintf MergeMethods v inp st =
     (let (out, violations) = st;
          out = (if Method inp = [] then out\<lparr>AllowedMethods := MergeMethods\<rparr> else out)
      in if length (StrategiesAllowed (Merge v)) > 0 then
           if Method inp \<noteq> [] then
             if Method inp \<notin> set (StrategiesAllowed (Merge v)) then
               (out, Addf Sprintf violations codePullReqMergeStrategiesAllowed
                  ''The requested merge strategy %q is not allowed. Allowed strategies are %v.''
                  [ArgString (Method inp), ArgStrings (StrategiesAllowed (Merge v))])
             else (out, violations)
           else (out\<lparr>AllowedMethods := StrategiesAllowed (Merge v)\<rparr>, violations)
         else (out, violations))"

subsection \<open>MergeVerify\<close>

text \<open>
  The result is a panic, or the three return values: the output, the slice of rule
  violations (\<open>[]\<close> is nil) and the error (\<open>None\<close> is nil).
\<close>

definition MergeVerify ::
  "sprintf \<Rightarrow> MergeMethod list \<Rightarrow> DefPullReq \<Rightarrow> MergeVerifyInput \<Rightarrow>
   go_panic + MergeVerifyOutput \<times> RuleViolations list \<times> error option" where
  "MergeVerify Sprintf MergeMethods v inp =
     (let out = \<lparr>DeleteSourceBranch = DeleteBranch (Merge v), AllowedMethods = []\<rparr>;
          violations = \<lparr>Violations = []\<rparr>
      in case reviewersLoop Sprintf v (PullReq inp) (Reviewers inp) ([], violations) of
           Inl e \<Rightarrow> Inl e
         | Inr (approvedBy, violations) \<Rightarrow>
             (case codeOwnersCheck Sprintf v inp (minimumCountCheck Sprintf v approvedBy violations) of
                Inl e \<Rightarrow> Inl e
              | Inr violations \<Rightarrow>
                  (case commentsCheck Sprintf v inp violations of
                     Inl e \<Rightarrow> Inl e
                   | Inr violations \<Rightarrow>
                       (let (out, violations) =
                              mergeCheck Sprintf MergeMethods v inp (out, statusChecksCheck Sprintf v inp violations)
                        in if length (Violations violations) > 0
                           then Inr (out, [violations], None)
                           else Inr (out, [], None)))))"

section \<open>The post-receive hook\<close>

text \<open>
  Modelled from the spec: \<open>types.NilSHA\<close> is not among the source files; it is git's
  nil hash, forty zeros.
\<close>

definition NilSHA :: string where
  "NilSHA = ''0000000000000000000000000000000000000000''"

definition gitReferenceNamePrefixBranch :: string where
  "gitReferenceNamePrefixBranch = ''refs/heads/''"

definition gitReferenceNamePrefixTag :: string where
  "gitReferenceNamePrefixTag = ''refs/tags/''"

record BranchCreatedPayload =
  RepoID :: int
  PrincipalID :: int
  Ref :: string
  SHA :: string

record BranchDeletedPayload =
  RepoID :: int
  PrincipalID :: int
  Ref :: string
  SHA :: string

record BranchUpdatedPayload =
  RepoID :: int
  PrincipalID :: int
  Ref :: string
  OldSHA :: string
  NewSHA :: string
  Forced :: bool

record TagCreatedPayload =
  RepoID :: int
  PrincipalID :: int
  Ref :: string
  SHA :: string

record TagDeletedPayload =
  RepoID :: int
  PrincipalID :: int
  Ref :: string
  SHA :: string

record TagUpdatedPayload =
  RepoID :: int
  PrincipalID :: int
  Ref :: string
  OldSHA :: string
  NewSHA :: string
  Forced :: bool

text \<open>A call of the git event reporter; reporting appends to the events sent so far.\<close>

datatype GitEvent =
    BranchCreated BranchCreatedPayload
  | BranchDeleted BranchDeletedPayload
  | BranchUpdated BranchUpdatedPayload
  | TagCreated TagCreatedPayload
  | TagDeleted TagDeletedPayload
  | TagUpdated TagUpdatedPayload

record ReferenceUpdate =
  Ref :: string
  Old :: string
  New :: string

record PostReceiveInput =
  RefUpdates :: "ReferenceUpdate list"

record Output =
  Messages :: "string list"

record Repository =
  ID :: int
  ParentID :: int
  GitUID :: string
  Path :: string
  DefaultBranch :: string
  Importing :: bool

text \<open>
  The collaborators of the githook controller, which are not among the source files,
  as parameters: the git backend's ancestry query (repository, ancestor, descendant),
  the pull-request store's listing of the open pull requests of a source repository and
  branch (the code asks for the first page of size two, oldest first), and the URL
  provider.
\<close>

record GithookController =
  IsAncestor :: "string \<Rightarrow> string \<Rightarrow> string \<Rightarrow> error + bool"
  pullreqStoreList :: "int \<Rightarrow> string \<Rightarrow> error + PullReq list"
  GenerateUIPRURL :: "string \<Rightarrow> int \<Rightarrow> string"
  GenerateUICompareURL :: "string \<Rightarrow> string \<Rightarrow> string \<Rightarrow> string"

definition reportBranchEvent ::
  "GithookController \<Rightarrow> Repository \<Rightarrow> int \<Rightarrow> ReferenceUpdate \<Rightarrow> GitEvent list \<Rightarrow> GitEvent list" where
  "reportBranchEvent c repo principalID branchUpdate reported =
     (if Old branchUpdate = NilSHA then
        reported @ [BranchCreated
          \<lparr>BranchCreatedPayload.RepoID = ID repo,
           BranchCreatedPayload.PrincipalID = principalID,
           BranchCreatedPayload.Ref = ReferenceUpdate.Ref branchUpdate,
           BranchCreatedPayload.SHA = New branchUpdate\<rparr>]
      else if New branchUpdate = NilSHA then
        reported @ [BranchDeleted
          \<lparr>BranchDeletedPayload.RepoID = ID repo,
           BranchDeletedPayload.PrincipalID = principalID,
           BranchDeletedPayload.Ref = ReferenceUpdate.Ref branchUpdate,
           BranchDeletedPayload.SHA = Old branchUpdate\<rparr>]
      else
        (let forced =
               (case IsAncestor c (GitUID repo) (Old branchUpdate) (New branchUpdate) of
                  Inl err \<Rightarrow> True
                | Inr ancestor \<Rightarrow> \<not> ancestor)
         in reported @ [BranchUpdated
              \<lparr>BranchUpdatedPayload.RepoID = ID repo,
               BranchUpdatedPayload.PrincipalID = principalID,
               BranchUpdatedPayload.Ref = ReferenceUpdate.Ref branchUpdate,
               BranchUpdatedPayload.OldSHA = Old branchUpdate,
               BranchUpdatedPayload.NewSHA = New branchUpdate,
               BranchUpdatedPayload.Forced = forced\<rparr>]))"

definition reportTagEvent ::
  "Repository \<Rightarrow> int \<Rightarrow> ReferenceUpdate \<Rightarrow> GitEvent list \<Rightarrow> GitEvent list" where
  "reportTagEvent repo principalID tagUpdate reported =
     (if Old tagUpdate = NilSHA then
        reported @ [TagCreated
          \<lparr>TagCreatedPayload.RepoID = ID repo,
           TagCreatedPayload.PrincipalID = principalID,
           TagCreatedPayload.Ref = ReferenceUpdate.Ref tagUpdate,
           TagCreatedPayload.SHA = New tagUpdate\<rparr>]
      else if New tagUpdate = NilSHA then
        reported @ [TagDeleted
          \<lparr>TagDeletedPayload.RepoID = ID repo,
           TagDeletedPayload.PrincipalID = principalID,
           TagDeletedPayload.Ref = ReferenceUpdate.Ref tagUpdate,
           TagDeletedPayload.SHA = Old tagUpdate\<rparr>]
      else
        reported @ [TagUpdated
          \<lparr>TagUpdatedPayload.RepoID = ID repo,
           TagUpdatedPayload.PrincipalID = principalID,
           TagUpdatedPayload.Ref = ReferenceUpdate.Ref tagUpdate,
           TagUpdatedPayload.OldSHA = Old tagUpdate,
           TagUpdatedPayload.NewSHA = New tagUpdate,
           TagUpdatedPayload.Forced = True\<rparr>])"

fun reportReferenceEvents ::
  "GithookController \<Rightarrow> Repository \<Rightarrow> int \<Rightarrow> ReferenceUpdate list \<Rightarrow> GitEvent list \<Rightarrow> GitEvent list" where
  "reportReferenceEvents c repo principalID [] reported = reported"
| "reportReferenceEvents c repo principalID (refUpdate # rest) reported =
     (if HasPrefix (ReferenceUpdate.Ref refUpdate) gitReferenceNamePrefixBranch then
        reportReferenceEvents c repo principalID rest
          (reportBranchEvent c repo principalID refUpdate reported)
      else if HasPrefix (ReferenceUpdate.Ref refUpdate) gitReferenceNamePrefixTag then
        reportReferenceEvents c repo principalID rest
          (reportTagEvent repo principalID refUpdate reported)
      else reportReferenceEvents c repo principalID rest reported)"

definition suggestPullRequest ::
  "sprintf \<Rightarrow> GithookController \<Rightarrow> Repository \<Rightarrow> string \<Rightarrow> Output \<Rightarrow> Output" where
  "suggestPullRequest Sprintf c repo branchName out =
     (if branchName = DefaultBranch repo then out
      else
        (case pullreqStoreList c (ID repo) branchName of
           Inl err \<Rightarrow> out
         | Inr prs \<Rightarrow>
             if length prs > 0 then
               out\<lparr>Messages := Messages out @
                 Sprintf ''Branch %q has open PRs:'' [ArgString branchName] #
                 concat (map (\<lambda>pr.
                   [Sprintf ''  (#%d) %s'' [ArgInt (Number pr), ArgString (Title pr)],
                    ''    '' @ GenerateUIPRURL c (Path repo) (Number pr)]) prs)\<rparr>
             else
               out\<lparr>Messages := Messages out @
                 [Sprintf ''Create a new PR for branch %q'' [ArgString branchName],
                  ''  '' @ GenerateUICompareURL c (Path repo) (DefaultBranch repo) branchName]\<rparr>))"

text \<open>
  The guard reads \<open>in.RefUpdates[0]\<close> only after \<open>len(in.RefUpdates) != 1\<close> has
  failed, so the case distinction is on the list having exactly one element.
\<close>

definition handlePRMessaging ::
  "sprintf \<Rightarrow> GithookController \<Rightarrow> Repository \<Rightarrow> PostReceiveInput \<Rightarrow> Output \<Rightarrow> Output" where
  "handlePRMessaging Sprintf c repo inp out =
     (case RefUpdates inp of
        [refUpdate] \<Rightarrow>
          if \<not> HasPrefix (ReferenceUpdate.Ref refUpdate) gitReferenceNamePrefixBranch \<or>
             New refUpdate = NilSHA
          then out
          else
            (let branchName =
                   drop (length gitReferenceNamePrefixBranch) (ReferenceUpdate.Ref refUpdate)
             in suggestPullRequest Sprintf c repo branchName out)
      | _ \<Rightarrow> out)"

record GithookPostReceiveInput =
  RepoID :: int
  PrincipalID :: int
  PostReceiveInput :: PostReceiveInput

text \<open>
  \<open>PostReceive\<close>: the events reported, the hook output and the error. The access
  check \<open>getRepoCheckAccess\<close> of the githook controller is not among the source
  files and is a parameter.
\<close>

definition PostReceive ::
  "sprintf \<Rightarrow> GithookController \<Rightarrow> (int \<Rightarrow> error + Repository) \<Rightarrow> GithookPostReceiveInput \<Rightarrow>
   GitEvent list \<times> Output \<times> error option" where
  "PostReceive Sprintf c getRepoCheckAccess inp =
     (case getRepoCheckAccess (GithookPostReceiveInput.RepoID inp) of
        Inl err \<Rightarrow> ([], \<lparr>Messages = []\<rparr>, Some err)
      | Inr repo \<Rightarrow>
          (reportReferenceEvents c repo (GithookPostReceiveInput.PrincipalID inp)
             (RefUpdates (PostReceiveInput inp)) [],
           handlePRMessaging Sprintf c repo (PostReceiveInput inp) \<lparr>Messages = []\<rparr>,
           None))"

section \<open>The head-ref synchronizer\<close>

datatype RefType =
    RefTypeRaw
  | RefTypeBranch
  | RefTypeTag
  | RefTypePullReqHead
  | RefTypePullReqMerge

record RepositoryGitInfo =
  ID :: int
  ParentID :: int
  GitUID :: string

record WriteParams =
  RepoUID :: string

record UpdateRefParams =
  WriteParams :: WriteParams
  Name :: string
  Type :: RefType
  NewValue :: string
  OldValue :: string

text \<open>The references of the git backend: repository, reference type and name to hash.\<close>

type_synonym GitRefs = "string \<times> RefType \<times> string \<rightharpoonup> string"


record pullreqevents_CreatedPayload =
  TargetRepoID :: int
  Number :: int
  SourceSHA :: string

record pullreqevents_BranchUpdatedPayload =
  TargetRepoID :: int
  Number :: int
  OldSHA :: string
  NewSHA :: string

record pullreqevents_ReopenedPayload =
  TargetRepoID :: int
  Number :: int
  SourceSHA :: string

text \<open>
  The collaborators of the pull-request service, which are not among the source files,
  as parameters: the cache of repository git info, \<open>createSystemRPCWriteParams\<close>
  (repository id and git UID) and the git backend's \<open>UpdateRef\<close> behind \<open>s.git\<close>,
  which takes the references to the references after the call and the error.
\<close>

record Service =
  repoGitInfoCacheGet :: "int \<Rightarrow> error + RepositoryGitInfo"
  createSystemRPCWriteParams :: "int \<Rightarrow> string \<Rightarrow> error + WriteParams"
  gitUpdateRef :: "GitRefs \<Rightarrow> UpdateRefParams \<Rightarrow> GitRefs \<times> error option"


definition updateHeadRefOnBranchUpdate ::
  "Service \<Rightarrow> GitRefs \<Rightarrow> pullreqevents_BranchUpdatedPayload \<Rightarrow> GitRefs \<times> error option" where
  "updateHeadRefOnBranchUpdate s refs payload =
     (case repoGitInfoCacheGet s (pullreqevents_BranchUpdatedPayload.TargetRepoID payload) of
        Inl err \<Rightarrow> (refs, Some (Errorf ''failed to get repo git info: %w'' err))
      | Inr repoGit \<Rightarrow>
          (case createSystemRPCWriteParams s (RepositoryGitInfo.ID repoGit)
                  (RepositoryGitInfo.GitUID repoGit) of
             Inl err \<Rightarrow> (refs, Some (Errorf ''failed to generate rpc write params: %w'' err))
           | Inr writeParams \<Rightarrow>
               (case gitUpdateRef s refs
                       \<lparr>WriteParams = writeParams,
                        Name = Itoa (pullreqevents_BranchUpdatedPayload.Number payload),
                        Type = RefTypePullReqHead,
                        NewValue = pullreqevents_BranchUpdatedPayload.NewSHA payload,
                        OldValue = pullreqevents_BranchUpdatedPayload.OldSHA payload\<rparr> of
                  (refs', Some err) \<Rightarrow>
                    (refs', Some (Errorf ''failed to update PR head ref after new commit: %w'' err))
                | (refs', None) \<Rightarrow> (refs', None))))"


section \<open>Updating a pull request\<close>

text \<open>
  \<open>strings.TrimSpace\<close> removes the leading and the trailing white space of Unicode
  (\<open>unicode.IsSpace\<close>) from a string of UTF-8 bytes. The white-space runes are U+0009
  to U+000D, U+0020, U+0085, U+00A0, U+1680, U+2000 to U+200A, U+2028, U+2029, U+202F,
  U+205F and U+3000; \<open>whiteSpace\<close> lists their UTF-8 encodings.

  From the left Go decodes one rune at a time; the bytes at the start decode to a
  white-space rune exactly when one of the encodings is a prefix of the string (an
  overlong or broken encoding decodes to \<open>utf8.RuneError\<close>, which is not white space).
  From the right Go decodes the last rune: it steps back over at most three
  continuation bytes to a byte that starts a rune and decodes from there; every
  encoding below is one starting byte followed by continuation bytes only, so the last
  rune is a white-space rune exactly when one of the encodings is a suffix of the
  string. The left end is trimmed first, as in \<open>strings.TrimFunc\<close>.
\<close>

definition whiteSpace :: "string list" where
  "whiteSpace =
     [[CHR 0x09], [CHR 0x0A], [CHR 0x0B], [CHR 0x0C], [CHR 0x0D], [CHR 0x20],
      [CHR 0xC2, CHR 0x85], [CHR 0xC2, CHR 0xA0],
      [CHR 0xE1, CHR 0x9A, CHR 0x80],
      [CHR 0xE2, CHR 0x80, CHR 0x80], [CHR 0xE2, CHR 0x80, CHR 0x81],
      [CHR 0xE2, CHR 0x80, CHR 0x82], [CHR 0xE2, CHR 0x80, CHR 0x83],
      [CHR 0xE2, CHR 0x80, CHR 0x84], [CHR 0xE2, CHR 0x80, CHR 0x85],
      [CHR 0xE2, CHR 0x80, CHR 0x86], [CHR 0xE2, CHR 0x80, CHR 0x87],
      [CHR 0xE2, CHR 0x80, CHR 0x88], [CHR 0xE2, CHR 0x80, CHR 0x89],
      [CHR 0xE2, CHR 0x80, CHR 0x8A],
      [CHR 0xE2, CHR 0x80, CHR 0xA8], [CHR 0xE2, CHR 0x80, CHR 0xA9],
      [CHR 0xE2, CHR 0x80, CHR 0xAF],
      [CHR 0xE2, CHR 0x81, CHR 0x9F],
      [CHR 0xE3, CHR 0x80, CHR 0x80]]"

text \<open>
  The number of bytes of the first of the sequences \<open>ws\<close> that the string starts
  with, and zero if it starts with none of them.
\<close>

definition leadingWidth :: "string list \<Rightarrow> string \<Rightarrow> nat" where
  "leadingWidth ws s =
     (case find (\<lambda>w. take (length w) s = w) ws of None \<Rightarrow> 0 | Some w \<Rightarrow> length w)"

function trimLeading :: "string list \<Rightarrow> string \<Rightarrow> string" where
  "trimLeading ws s =
     (if leadingWidth ws s = 0 then s else trimLeading ws (drop (leadingWidth ws s) s))"
  by pat_completeness auto
termination
proof (relation "measure (\<lambda>(ws, s). length s)")
  show "wf (measure (\<lambda>(ws, s). length s))"
    by simp
next
  fix ws :: "string list" and s :: string
  assume n: "leadingWidth ws s \<noteq> 0"
  then obtain w where "find (\<lambda>w. take (length w) s = w) ws = Some w" and "w \<noteq> []"
    by (auto simp: leadingWidth_def split: option.splits)
  then have "take (length w) s = w"
    by (auto simp: find_Some_iff)
  with \<open>w \<noteq> []\<close> have "s \<noteq> []"
    by auto
  with n show "((ws, drop (leadingWidth ws s) s), (ws, s)) \<in> measure (\<lambda>(ws, s). length s)"
    by (cases s) simp_all
qed

declare trimLeading.simps [simp del]

definition TrimLeft :: "string \<Rightarrow> string" where
  "TrimLeft s = trimLeading whiteSpace s"

definition TrimRight :: "string \<Rightarrow> string" where
  "TrimRight s = rev (trimLeading (map rev whiteSpace) (rev s))"

definition TrimSpace :: "string \<Rightarrow> string" where
  "TrimSpace s = TrimRight (TrimLeft s)"

record UpdateInput =
  Title :: string
  Description :: string

definition Check :: "UpdateInput \<Rightarrow> UpdateInput \<times> error option" where
  "Check inp =
     (let inp = inp\<lparr>UpdateInput.Title := TrimSpace (UpdateInput.Title inp)\<rparr> in
      if UpdateInput.Title inp = [] then
        (inp, Some (BadRequest ''pull request title can't be empty''))
      else
        (inp\<lparr>UpdateInput.Description := TrimSpace (UpdateInput.Description inp)\<rparr>, None))"

datatype Permission =
    PermissionRepoView
  | PermissionRepoEdit
  | PermissionRepoDelete
  | PermissionRepoPush
  | PermissionRepoReportCommitCheck

record Principal =
  ID :: int

record Session =
  Principal :: Principal

record PullRequestActivityPayloadTitleChange =
  Old :: string
  New :: string

text \<open>
  The stores the controller writes to: the pull requests by target repository and
  number, the activities created (pull request, principal, payload) and the events
  published on the SSE stream (space, pull request).
\<close>

record Stores =
  pullreqStore :: "int \<times> int \<rightharpoonup> PullReq"
  activityStore :: "(PullReq \<times> int \<times> PullRequestActivityPayloadTitleChange) list"
  sseStreamer :: "(int \<times> PullReq) list"

text \<open>
  The collaborators that are not among the source files, as parameters: the repository
  store, the authorizer behind \<open>apiauth.CheckRepo\<close>, the clock, and whether creating
  the activity and publishing the event fail (both failures are only logged).
\<close>

record PullReqController =
  repoStoreFindByRef :: "string \<Rightarrow> error + Repository"
  repoStoreFind :: "int \<Rightarrow> error + Repository"
  CheckRepo :: "Session \<Rightarrow> Repository \<Rightarrow> Permission \<Rightarrow> error option"
  Now :: int
  CreateWithPayloadError :: "error option"
  PublishError :: "error option"

definition getRepoCheckAccess ::
  "PullReqController \<Rightarrow> Session \<Rightarrow> string \<Rightarrow> Permission \<Rightarrow> error + Repository" where
  "getRepoCheckAccess c session repoRef reqPermission =
     (if repoRef = [] then Inl (BadRequest ''A valid repository reference must be provided.'')
      else
        (case repoStoreFindByRef c repoRef of
           Inl err \<Rightarrow> Inl (Errorf ''failed to find repository: %w'' err)
         | Inr repo \<Rightarrow>
             if Importing repo then Inl (BadRequest ''Repository import is in progress.'')
             else
               (case CheckRepo c session repo reqPermission of
                  Some err \<Rightarrow> Inl (Errorf ''access check failed: %w'' err)
                | None \<Rightarrow> Inr repo)))"

text \<open>
  Modelled from the spec: the pull-request store is not among the source files.
  \<open>FindByNumber\<close> reads the stored pull request. \<open>UpdateOptLock\<close> is the spec's
  compare-and-swap update: it takes a mutator function, fails with a version conflict
  if the stored version has advanced since the pull request was read, and otherwise
  stores the mutated pull request under the next version.
\<close>

definition FindByNumber :: "Stores \<Rightarrow> int \<Rightarrow> int \<Rightarrow> error + PullReq" where
  "FindByNumber st repoID number =
     (case pullreqStore st (repoID, number) of
        None \<Rightarrow> Inl (Error ''resource not found'')
      | Some pr \<Rightarrow> Inr pr)"

definition UpdateOptLock ::
  "Stores \<Rightarrow> PullReq \<Rightarrow> (PullReq \<Rightarrow> error + PullReq) \<Rightarrow> Stores \<times> (error + PullReq)" where
  "UpdateOptLock st pr mutateFn =
     (case mutateFn pr of
        Inl err \<Rightarrow> (st, Inl err)
      | Inr dup \<Rightarrow>
          (case pullreqStore st (PullReq.TargetRepoID pr, PullReq.Number pr) of
             None \<Rightarrow> (st, Inl (Error ''resource not found''))
           | Some stored \<Rightarrow>
               if Version stored = Version pr then
                 (let dup = dup\<lparr>Version := Version pr + 1\<rparr> in
                  (st\<lparr>pullreqStore :=
                        (pullreqStore st)((PullReq.TargetRepoID pr, PullReq.Number pr) \<mapsto> dup)\<rparr>,
                   Inr dup))
               else (st, Inl ErrVersionConflict)))"

text \<open>
  \<open>Update\<close>: the stores after the call and the two return values, the pull request
  (\<open>None\<close> is nil) and the error. The mutator passed to \<open>UpdateOptLock\<close> is the
  closure of the source; it never fails. When \<open>UpdateOptLock\<close> fails it returns no
  pull request, and \<open>Update\<close> returns that nil with the wrapped error.
\<close>

definition Update ::
  "PullReqController \<Rightarrow> Stores \<Rightarrow> Session \<Rightarrow> string \<Rightarrow> int \<Rightarrow> UpdateInput \<Rightarrow>
   Stores \<times> PullReq option \<times> error option" where
  "Update c st session repoRef pullreqNum inp0 =
     (case Check inp0 of
        (inp, Some err) \<Rightarrow> (st, None, Some err)
      | (inp, None) \<Rightarrow>
     (case getRepoCheckAccess c session repoRef PermissionRepoPush of
        Inl err \<Rightarrow> (st, None, Some (Errorf ''failed to acquire access to target repo: %w'' err))
      | Inr targetRepo \<Rightarrow>
     (case FindByNumber st (Repository.ID targetRepo) pullreqNum of
        Inl err \<Rightarrow> (st, None, Some (Errorf ''failed to get pull request by number: %w'' err))
      | Inr pr \<Rightarrow>
     (case
        (if PullReq.SourceRepoID pr \<noteq> PullReq.TargetRepoID pr then
           (case repoStoreFind c (PullReq.SourceRepoID pr) of
              Inl err \<Rightarrow> Some (Errorf ''failed to get source repo by id: %w'' err)
            | Inr sourceRepo \<Rightarrow>
                (case CheckRepo c session sourceRepo PermissionRepoView of
                   Some err \<Rightarrow> Some (Errorf ''failed to acquire access to source repo: %w'' err)
                 | None \<Rightarrow> None))
         else None) of
        Some err \<Rightarrow> (st, None, Some err)
      | None \<Rightarrow>
     if PullReq.Title pr = UpdateInput.Title inp \<and>
        PullReq.Description pr = UpdateInput.Description inp
     then (st, Some pr, None)
     else
       (let needToWriteActivity = (UpdateInput.Title inp \<noteq> PullReq.Title pr);
            oldTitle = PullReq.Title pr
        in case UpdateOptLock st pr (\<lambda>pr. Inr
                  (pr\<lparr>PullReq.Title := UpdateInput.Title inp,
                      PullReq.Description := UpdateInput.Description inp,
                      Edited := Now c,
                      ActivitySeq :=
                        (if needToWriteActivity then ActivitySeq pr + 1 else ActivitySeq pr)\<rparr>)) of
             (st, Inl err) \<Rightarrow> (st, None, Some (Errorf ''failed to update pull request: %w'' err))
           | (st, Inr pr) \<Rightarrow>
               (let st =
                      (if needToWriteActivity \<and> CreateWithPayloadError c = None then
                         st\<lparr>activityStore := activityStore st @
                              [(pr, Principal.ID (Principal session),
                                \<lparr>Old = oldTitle, New = PullReq.Title pr\<rparr>)]\<rparr>
                       else st);
                    st =
                      (if PublishError c = None then
                         st\<lparr>sseStreamer := sseStreamer st @ [(Repository.ParentID targetRepo, pr)]\<rparr>
                       else st)
                in (st, Some pr, None)))))))"

section \<open>Notions used to state the properties\<close>

text \<open>
  Every leaf evaluation under a pattern: the per-user evaluations followed by the
  members of each user group, in the order the code visits them.
\<close>

definition entryLeaves :: "EvaluationEntry \<Rightarrow> OwnerEvaluation list" where
  "entryLeaves entry =
     OwnerEvaluations entry @ concat (map Evaluations (UserGroupOwnerEvaluations entry))"

definition isApproval :: "OwnerEvaluation \<Rightarrow> bool" where
  "isApproval ev = (OwnerEvaluation.ReviewDecision ev = PullReqReviewDecisionApproved)"

definition isChangeReq :: "OwnerEvaluation \<Rightarrow> bool" where
  "isChangeReq ev = (OwnerEvaluation.ReviewDecision ev = PullReqReviewDecisionChangeReq)"

text \<open>
  What \<open>MergeVerify\<close> reports, stated on the input without the loops and their
  accumulators: a reviewer's approval qualifies if it is an approval and, when the
  latest commit is required, was given on the source SHA of the pull request; each
  block of the function contributes its violations in order.
\<close>

definition qualifyingApproval :: "DefPullReq \<Rightarrow> PullReq \<Rightarrow> PullReqReviewer \<Rightarrow> bool" where
  "qualifyingApproval v p r =
     (PullReqReviewer.ReviewDecision r = PullReqReviewDecisionApproved \<and>
      (RequireLatestCommit (Approvals v) \<longrightarrow> PullReqReviewer.SHA r = PullReq.SourceSHA p))"

definition changeRequestViolations :: "sprintf \<Rightarrow> DefPullReq \<Rightarrow> PullReq \<Rightarrow> PullReqReviewer \<Rightarrow> Violation list" where
  "changeRequestViolations Sprintf v p r =
     (if PullReqReviewer.ReviewDecision r = PullReqReviewDecisionChangeReq \<and>
         RequireNoChangeRequest (Approvals v)
      then
        [if PullReqReviewer.SHA r = PullReq.SourceSHA p then
           \<lparr>Code = codePullReqApprovalReqChangeRequested,
            Message = Sprintf ''Reviewer %s requested changes''
                        [ArgString (DisplayName (Reviewer r))]\<rparr>
         else
           \<lparr>Code = codePullReqApprovalReqChangeRequestedOldSHA,
            Message = Sprintf ''Reviewer %s requested changes for an older commit''
                        [ArgString (DisplayName (Reviewer r))]\<rparr>]
      else [])"

definition minimumCountViolations :: "sprintf \<Rightarrow> DefPullReq \<Rightarrow> int \<Rightarrow> Violation list" where
  "minimumCountViolations Sprintf v have =
     (if have < RequireMinimumCount (Approvals v) then
        [if RequireLatestCommit (Approvals v) then
           \<lparr>Code = codePullReqApprovalReqMinCountLatest,
            Message = Sprintf
              ''Insufficient number of approvals of the latest commit. Have %d but need at least %d.''
              [ArgInt have, ArgInt (RequireMinimumCount (Approvals v))]\<rparr>
         else
           \<lparr>Code = codePullReqApprovalReqMinCount,
            Message = Sprintf ''Insufficient number of approvals. Have %d but need at least %d.''
              [ArgInt have, ArgInt (RequireMinimumCount (Approvals v))]\<rparr>]
      else [])"

definition codeOwnerEntryViolations :: "sprintf \<Rightarrow> DefPullReq \<Rightarrow> PullReq \<Rightarrow> EvaluationEntry \<Rightarrow> Violation list" where
  "codeOwnerEntryViolations Sprintf v p entry =
     (let (reviewDecision, approvers) = getCodeOwnerApprovalStatus entry in
      if reviewDecision = PullReqReviewDecisionPending then
        [\<lparr>Code = codePullReqApprovalReqCodeOwnersNoApproval,
          Message = Sprintf ''Code owners approval pending for %q'' [ArgString (Pattern entry)]\<rparr>]
      else if reviewDecision = PullReqReviewDecisionChangeReq then
        [\<lparr>Code = codePullReqApprovalReqCodeOwnersChangeRequested,
          Message = Sprintf ''Code owners requested changes for %q'' [ArgString (Pattern entry)]\<rparr>]
      else if RequireLatestCommit (Approvals v) \<and>
              \<not> list_ex (\<lambda>ev. ReviewSHA ev = PullReq.SourceSHA p) approvers then
        [\<lparr>Code = codePullReqApprovalReqCodeOwnersNoLatestApproval,
          Message = Sprintf ''Code owners approval pending on latest commit for %q''
                      [ArgString (Pattern entry)]\<rparr>]
      else [])"

definition codeOwnerViolations :: "sprintf \<Rightarrow> DefPullReq \<Rightarrow> PullReq \<Rightarrow> Evaluation option \<Rightarrow> Violation list" where
  "codeOwnerViolations Sprintf v p codeOwners =
     (if RequireCodeOwners (Approvals v) then
        (case codeOwners of
           None \<Rightarrow> []
         | Some evaluation \<Rightarrow>
             concat (map (codeOwnerEntryViolations Sprintf v p) (EvaluationEntries evaluation)))
      else [])"

definition commentViolations :: "sprintf \<Rightarrow> DefPullReq \<Rightarrow> PullReq \<Rightarrow> Violation list" where
  "commentViolations Sprintf v p =
     (if RequireResolveAll (Comments v) \<and> UnresolvedCount p > 0 then
        [\<lparr>Code = codePullReqCommentsReqResolveAll,
          Message = Sprintf ''All comments must be resolved. There are %d unresolved comments.''
                      [ArgInt (UnresolvedCount p)]\<rparr>]
      else [])"

definition firstResultSucceeded :: "CheckResult list \<Rightarrow> string \<Rightarrow> bool" where
  "firstResultSucceeded results identifier =
     (case find (\<lambda>c. Identifier c = identifier) results of
        None \<Rightarrow> False
      | Some c \<Rightarrow> Status c = CheckStatusSuccess)"

definition missingIdentifiers :: "DefPullReq \<Rightarrow> CheckResult list \<Rightarrow> string list" where
  "missingIdentifiers v results =
     filter (\<lambda>identifier. \<not> firstResultSucceeded results identifier)
       (RequireIdentifiers (StatusChecks v))"

definition statusCheckViolations :: "sprintf \<Rightarrow> DefPullReq \<Rightarrow> CheckResult list \<Rightarrow> Violation list" where
  "statusCheckViolations Sprintf v results =
     (if missingIdentifiers v results = [] then []
      else
        [\<lparr>Code = codePullReqStatusChecksReqIdentifiers,
          Message = Sprintf
            ''The following status checks are required to be completed successfully: %s''
            [ArgString (Join (missingIdentifiers v results) '', '')]\<rparr>])"

definition mergeViolations :: "sprintf \<Rightarrow> DefPullReq \<Rightarrow> MergeMethod \<Rightarrow> Violation list" where
  "mergeViolations Sprintf v method =
     (if StrategiesAllowed (Merge v) \<noteq> [] \<and> method \<noteq> [] \<and>
         method \<notin> set (StrategiesAllowed (Merge v)) then
        [\<lparr>Code = codePullReqMergeStrategiesAllowed,
          Message = Sprintf
            ''The requested merge strategy %q is not allowed. Allowed strategies are %v.''
            [ArgString method, ArgStrings (StrategiesAllowed (Merge v))]\<rparr>]
      else [])"

definition expectedViolations ::
  "sprintf \<Rightarrow> DefPullReq \<Rightarrow> PullReq \<Rightarrow> PullReqReviewer list \<Rightarrow> MergeVerifyInput \<Rightarrow> Violation list" where
  "expectedViolations Sprintf v p rs inp =
     concat (map (changeRequestViolations Sprintf v p) rs) @
     minimumCountViolations Sprintf v (int (length (filter (qualifyingApproval v p) rs))) @
     codeOwnerViolations Sprintf v p (CodeOwners inp) @
     commentViolations Sprintf v p @
     statusCheckViolations Sprintf v (CheckResults inp) @
     mergeViolations Sprintf v (Method inp)"

definition expectedOutput ::
  "MergeMethod list \<Rightarrow> DefPullReq \<Rightarrow> MergeVerifyInput \<Rightarrow> MergeVerifyOutput" where
  "expectedOutput MergeMethods v inp =
     \<lparr>DeleteSourceBranch = DeleteBranch (Merge v),
      AllowedMethods =
        (if Method inp \<noteq> [] then []
         else if StrategiesAllowed (Merge v) \<noteq> [] then StrategiesAllowed (Merge v)
         else MergeMethods)\<rparr>"

text \<open>
  The conditions under which \<open>MergeVerify\<close> has something to report: one for each
  reviewer who requested changes, one for too few approvals, one for each code-owner
  pattern that is evaluated and not approved, one for unresolved comments, one for
  required status checks that did not succeed and one for a merge strategy that is not
  allowed. \<open>conditionCount\<close> is the number of conditions that hold.
\<close>

definition changeRequested :: "DefPullReq \<Rightarrow> PullReqReviewer \<Rightarrow> bool" where
  "changeRequested v r =
     (RequireNoChangeRequest (Approvals v) \<and>
      PullReqReviewer.ReviewDecision r = PullReqReviewDecisionChangeReq)"

definition condInsufficientApprovals :: "DefPullReq \<Rightarrow> PullReq \<Rightarrow> PullReqReviewer list \<Rightarrow> bool" where
  "condInsufficientApprovals v p rs =
     (int (length (filter (qualifyingApproval v p) rs)) < RequireMinimumCount (Approvals v))"

definition entryNotApproved :: "DefPullReq \<Rightarrow> PullReq \<Rightarrow> EvaluationEntry \<Rightarrow> bool" where
  "entryNotApproved v p entry =
     (fst (getCodeOwnerApprovalStatus entry) = PullReqReviewDecisionPending \<or>
      fst (getCodeOwnerApprovalStatus entry) = PullReqReviewDecisionChangeReq \<or>
      (RequireLatestCommit (Approvals v) \<and>
       \<not> list_ex (\<lambda>ev. ReviewSHA ev = PullReq.SourceSHA p)
            (snd (getCodeOwnerApprovalStatus entry))))"

definition ownerEntries :: "DefPullReq \<Rightarrow> MergeVerifyInput \<Rightarrow> EvaluationEntry list" where
  "ownerEntries v inp =
     (if RequireCodeOwners (Approvals v) then
        (case CodeOwners inp of None \<Rightarrow> [] | Some evaluation \<Rightarrow> EvaluationEntries evaluation)
      else [])"

definition condUnresolvedComments :: "DefPullReq \<Rightarrow> PullReq \<Rightarrow> bool" where
  "condUnresolvedComments v p = (RequireResolveAll (Comments v) \<and> UnresolvedCount p > 0)"

definition condStatusChecks :: "DefPullReq \<Rightarrow> CheckResult list \<Rightarrow> bool" where
  "condStatusChecks v results =
     list_ex (\<lambda>identifier. \<not> firstResultSucceeded results identifier)
       (RequireIdentifiers (StatusChecks v))"

definition condMergeStrategy :: "DefPullReq \<Rightarrow> MergeMethod \<Rightarrow> bool" where
  "condMergeStrategy v method =
     (StrategiesAllowed (Merge v) \<noteq> [] \<and> method \<noteq> [] \<and>
      method \<notin> set (StrategiesAllowed (Merge v)))"

definition conditionCount ::
  "DefPullReq \<Rightarrow> PullReq \<Rightarrow> PullReqReviewer list \<Rightarrow> MergeVerifyInput \<Rightarrow> nat" where
  "conditionCount v p rs inp =
     length (filter (changeRequested v) rs) +
     (if condInsufficientApprovals v p rs then 1 else 0) +
     length (filter (entryNotApproved v p) (ownerEntries v inp)) +
     (if condUnresolvedComments v p then 1 else 0) +
     (if condStatusChecks v (CheckResults inp) then 1 else 0) +
     (if condMergeStrategy v (Method inp) then 1 else 0)"

text \<open>
  The violations of a returned report, and the test for a violation's code.
\<close>

definition reportedViolations :: "RuleViolations list \<Rightarrow> Violation list" where
  "reportedViolations report = concat (map Violations report)"

definition hasCode :: "string set \<Rightarrow> Violation \<Rightarrow> bool" where
  "hasCode codes x = (Code x \<in> codes)"

text \<open>
  A push for which the hook may suggest a pull request: one reference update, of a
  branch, that does not delete it, on a branch other than the default branch.
\<close>

definition suggestionPush :: "Repository \<Rightarrow> PostReceiveInput \<Rightarrow> bool" where
  "suggestionPush repo inp =
     (length (RefUpdates inp) = 1 \<and>
      HasPrefix (ReferenceUpdate.Ref (hd (RefUpdates inp))) ''refs/heads/'' \<and>
      ReferenceUpdate.New (hd (RefUpdates inp)) \<noteq> NilSHA \<and>
      drop (length ''refs/heads/'') (ReferenceUpdate.Ref (hd (RefUpdates inp))) \<noteq>
        DefaultBranch repo)"

text \<open>
  The check of the source repository in \<open>Update\<close>, made when the pull request
  comes from another repository.
\<close>

definition sourceAccess :: "PullReqController \<Rightarrow> Session \<Rightarrow> PullReq \<Rightarrow> error option" where
  "sourceAccess c session pr =
     (if PullReq.SourceRepoID pr \<noteq> PullReq.TargetRepoID pr then
        (case repoStoreFind c (PullReq.SourceRepoID pr) of
           Inl err \<Rightarrow> Some (Errorf ''failed to get source repo by id: %w'' err)
         | Inr sourceRepo \<Rightarrow>
             (case CheckRepo c session sourceRepo PermissionRepoView of
                Some err \<Rightarrow> Some (Errorf ''failed to acquire access to source repo: %w'' err)
              | None \<Rightarrow> None))
      else None)"

section \<open>Example inputs\<close>

definition ex_pr :: PullReq where
  "ex_pr = \<lparr>PullReq.Number = 1, SourceRepoID = 7, TargetRepoID = 7, SourceSHA = ''b2'',
            UnresolvedCount = 2, Title = ''Fix parser'', Description = ''old text'',
            Edited = 0, ActivitySeq = 5, Version = 1\<rparr>"

text \<open>
  A rendering to put for the parameter \<open>Sprintf\<close> in the examples: each verb is
  replaced by its argument, a string as it is, an integer in decimal and a slice of
  strings between brackets. It is not Go's rendering: it does not quote for \<open>%q\<close>.
\<close>

fun ex_verb :: "fmt_arg \<Rightarrow> string" where
  "ex_verb (ArgString s) = s"
| "ex_verb (ArgInt i) = Itoa i"
| "ex_verb (ArgStrings xs) = ''['' @ Join xs '' '' @ '']''"

fun ex_Sprintf :: sprintf where
  "ex_Sprintf [] args = []"
| "ex_Sprintf [c] args = [c]"
| "ex_Sprintf (c # d # cs) [] = c # ex_Sprintf (d # cs) []"
| "ex_Sprintf (c # d # cs) (a # as) =
     (if c = CHR ''%'' then ex_verb a @ ex_Sprintf cs as else c # ex_Sprintf (d # cs) (a # as))"

definition ex_methods :: "MergeMethod list" where
  "ex_methods = [''merge'', ''rebase'', ''squash'']"

definition ex_policy :: "bool \<Rightarrow> int \<Rightarrow> bool \<Rightarrow> bool \<Rightarrow> string list \<Rightarrow> DefPullReq" where
  "ex_policy owners minimum latest resolve identifiers =
     \<lparr>Approvals = \<lparr>RequireCodeOwners = owners, RequireMinimumCount = minimum,
                    RequireLatestCommit = latest, RequireNoChangeRequest = False\<rparr>,
      Comments = \<lparr>RequireResolveAll = resolve\<rparr>,
      StatusChecks = \<lparr>RequireIdentifiers = identifiers\<rparr>,
      Merge = \<lparr>StrategiesAllowed = [], DeleteBranch = False\<rparr>\<rparr>"

definition ex_policy_strict :: "string list \<Rightarrow> DefPullReq" where
  "ex_policy_strict identifiers =
     \<lparr>Approvals = \<lparr>RequireCodeOwners = True, RequireMinimumCount = 1,
                    RequireLatestCommit = False, RequireNoChangeRequest = True\<rparr>,
      Comments = \<lparr>RequireResolveAll = True\<rparr>,
      StatusChecks = \<lparr>RequireIdentifiers = identifiers\<rparr>,
      Merge = \<lparr>StrategiesAllowed = [], DeleteBranch = False\<rparr>\<rparr>"

definition ex_input ::
  "PullReqReviewer option list \<Rightarrow> CheckResult list \<Rightarrow> Evaluation option \<Rightarrow> MergeVerifyInput" where
  "ex_input reviewers results owners =
     \<lparr>AllowBypass = False, IsRepoOwner = False, PullReq = Some ex_pr, Reviewers = reviewers,
      Method = ''merge'', CheckResults = results, CodeOwners = owners\<rparr>"

definition ex_reviewer :: "string \<Rightarrow> PullReqReviewDecision \<Rightarrow> string \<Rightarrow> PullReqReviewer" where
  "ex_reviewer name decision sha =
     \<lparr>Reviewer = \<lparr>DisplayName = name\<rparr>, PullReqReviewer.ReviewDecision = decision,
      PullReqReviewer.SHA = sha\<rparr>"

definition ex_owner :: "string \<Rightarrow> PullReqReviewDecision \<Rightarrow> string \<Rightarrow> OwnerEvaluation" where
  "ex_owner name decision sha =
     \<lparr>Owner = \<lparr>DisplayName = name\<rparr>, OwnerEvaluation.ReviewDecision = decision, ReviewSHA = sha\<rparr>"

definition ex_repo :: Repository where
  "ex_repo = \<lparr>Repository.ID = 7, Repository.ParentID = 3, Repository.GitUID = ''repo-uid'',
              Path = ''space/repo'', DefaultBranch = ''main'', Importing = False\<rparr>"

definition ex_githook :: "(error + bool) \<Rightarrow> GithookController" where
  "ex_githook ancestry =
     \<lparr>IsAncestor = (\<lambda>repoUID ancestor descendant. ancestry),
      pullreqStoreList = (\<lambda>repoID branch. Inr []),
      GenerateUIPRURL = (\<lambda>path number. ''https://git.example/'' @ path @ ''/pulls/'' @ Itoa number),
      GenerateUICompareURL = (\<lambda>path target source.
        ''https://git.example/'' @ path @ ''/pulls/compare/'' @ target @ ''...'' @ source)\<rparr>"



definition ex_controller :: PullReqController where
  "ex_controller =
     \<lparr>repoStoreFindByRef = (\<lambda>repoRef. Inr ex_repo),
      repoStoreFind = (\<lambda>repoID. Inr ex_repo),
      CheckRepo = (\<lambda>session repo permission. None),
      Now = 1000,
      CreateWithPayloadError = None,
      PublishError = None\<rparr>"

definition ex_stores :: Stores where
  "ex_stores = \<lparr>pullreqStore = [(7, 1) \<mapsto> ex_pr], activityStore = [], sseStreamer = []\<rparr>"

definition ex_session :: Session where
  "ex_session = \<lparr>Principal = \<lparr>Principal.ID = 42\<rparr>\<rparr>"

section \<open>Properties of getCodeOwnerApprovalStatus\<close>

lemma ownersLoop_eq:
  "ownersLoop evs acc =
     (if list_ex isChangeReq evs then None else Some (acc @ filter isApproval evs))"
  by (induction evs arbitrary: acc) (simp_all add: isChangeReq_def isApproval_def)

lemma userGroupsLoop_eq:
  "userGroupsLoop us acc =
     (if list_ex isChangeReq (concat (map Evaluations us)) then None
      else Some (acc @ filter isApproval (concat (map Evaluations us))))"
  by (induction us arbitrary: acc) (auto simp: ownersLoop_eq list_ex_iff)

text \<open>
  C4. For every code-owner evaluation entry: if any per-user evaluation or any member
  evaluation of any user group carries a change-requested decision, the aggregate
  decision is change-requested, whatever approvals stand beside it; otherwise, if at
  least one leaf is an approval, the aggregate is approved and the approvers are exactly
  the approving leaves in order; otherwise the aggregate is pending.
\<close>

theorem getCodeOwnerApprovalStatus_aggregate:
  "getCodeOwnerApprovalStatus entry =
     (if list_ex isChangeReq (entryLeaves entry) then (PullReqReviewDecisionChangeReq, [])
      else if list_ex isApproval (entryLeaves entry)
        then (PullReqReviewDecisionApproved, filter isApproval (entryLeaves entry))
      else (PullReqReviewDecisionPending, []))"
proof (cases "list_ex isChangeReq (entryLeaves entry)")
  case True
  then show ?thesis
    unfolding getCodeOwnerApprovalStatus_def entryLeaves_def
    by (auto simp: ownersLoop_eq userGroupsLoop_eq)
next
  case False
  then have users: "\<not> list_ex isChangeReq (OwnerEvaluations entry)"
    and members:
      "\<not> list_ex isChangeReq (concat (map Evaluations (UserGroupOwnerEvaluations entry)))"
    by (simp_all add: entryLeaves_def)
  have none: "(filter isApproval xs = []) = (\<not> list_ex isApproval xs)" for xs
    by (simp add: list_ex_iff filter_empty_conv)
  have "getCodeOwnerApprovalStatus entry =
      (if filter isApproval (entryLeaves entry) \<noteq> []
       then (PullReqReviewDecisionApproved, filter isApproval (entryLeaves entry))
       else (PullReqReviewDecisionPending, []))"
    unfolding getCodeOwnerApprovalStatus_def
    by (simp add: ownersLoop_eq userGroupsLoop_eq users members entryLeaves_def)
  with False show ?thesis
    by (simp only: none) simp
qed

text \<open>
  Two users and a group member approve, a second group member requests changes: the
  pattern is change-requested.
\<close>

theorem getCodeOwnerApprovalStatus_aggregate_witness:
  "getCodeOwnerApprovalStatus
     \<lparr>Pattern = ''*.go'',
      OwnerEvaluations =
        [ex_owner ''ann'' PullReqReviewDecisionApproved ''b2'',
         ex_owner ''bob'' PullReqReviewDecisionApproved ''b2''],
      UserGroupOwnerEvaluations =
        [\<lparr>Evaluations =
            [ex_owner ''cy'' PullReqReviewDecisionApproved ''b2'',
             ex_owner ''dee'' PullReqReviewDecisionChangeReq ''a1'']\<rparr>]\<rparr> =
   (PullReqReviewDecisionChangeReq, [])"
  using getCodeOwnerApprovalStatus_aggregate
    [of "\<lparr>Pattern = ''*.go'',
      OwnerEvaluations =
        [ex_owner ''ann'' PullReqReviewDecisionApproved ''b2'',
         ex_owner ''bob'' PullReqReviewDecisionApproved ''b2''],
      UserGroupOwnerEvaluations =
        [\<lparr>Evaluations =
            [ex_owner ''cy'' PullReqReviewDecisionApproved ''b2'',
             ex_owner ''dee'' PullReqReviewDecisionChangeReq ''a1'']\<rparr>]\<rparr>"]
  by (simp add: entryLeaves_def isChangeReq_def isApproval_def ex_owner_def)

section \<open>Properties of MergeVerify\<close>

subsection \<open>Each block appends its violations\<close>

lemma reviewersLoop_eq:
  "reviewersLoop Sprintf v (Some p) (map Some rs) (acc, \<lparr>Violations = vs\<rparr>) =
     Inr (acc @ map Reviewer (filter (qualifyingApproval v p) rs),
          \<lparr>Violations = vs @ concat (map (changeRequestViolations Sprintf v p) rs)\<rparr>)"
proof (induction rs arbitrary: acc vs)
  case Nil
  show ?case by simp
next
  case (Cons r rs)
  show ?case
    by (cases "PullReqReviewer.ReviewDecision r")
       (simp_all add: Cons.IH qualifyingApproval_def changeRequestViolations_def Addf_def)
qed

lemma minimumCountCheck_eq:
  "minimumCountCheck Sprintf v approvedBy \<lparr>Violations = vs\<rparr> =
     \<lparr>Violations = vs @ minimumCountViolations Sprintf v (int (length approvedBy))\<rparr>"
  by (simp add: minimumCountCheck_def minimumCountViolations_def Addf_def)

lemma codeOwnersLoop_eq:
  "codeOwnersLoop Sprintf v (Some p) es \<lparr>Violations = vs\<rparr> =
     Inr \<lparr>Violations = vs @ concat (map (codeOwnerEntryViolations Sprintf v p) es)\<rparr>"
proof (induction es arbitrary: vs)
  case Nil
  show ?case by simp
next
  case (Cons entry es)
  obtain d approvers where st: "getCodeOwnerApprovalStatus entry = (d, approvers)"
    by (cases "getCodeOwnerApprovalStatus entry")
  show ?case
    by (simp add: st Cons.IH codeOwnerEntryViolations_def Addf_def latestSHAApproved_def)
qed

lemma codeOwnersCheck_eq:
  assumes "PullReq inp = Some p"
    and "RequireCodeOwners (Approvals v) \<longrightarrow> CodeOwners inp \<noteq> None"
  shows "codeOwnersCheck Sprintf v inp \<lparr>Violations = vs\<rparr> =
           Inr \<lparr>Violations = vs @ codeOwnerViolations Sprintf v p (CodeOwners inp)\<rparr>"
  using assms
  by (auto simp: codeOwnersCheck_def codeOwnerViolations_def codeOwnersLoop_eq)

lemma commentsCheck_eq:
  assumes "PullReq inp = Some p"
  shows "commentsCheck Sprintf v inp \<lparr>Violations = vs\<rparr> = Inr \<lparr>Violations = vs @ commentViolations Sprintf v p\<rparr>"
  using assms by (simp add: commentsCheck_def commentViolations_def Addf_def)

lemma checkResultsLoop_eq: "checkResultsLoop results identifier = firstResultSucceeded results identifier"
  by (induction results) (simp_all add: firstResultSucceeded_def)

lemma requireIdentifiersLoop_eq:
  "requireIdentifiersLoop results ids acc =
     acc @ filter (\<lambda>identifier. \<not> firstResultSucceeded results identifier) ids"
  by (induction ids arbitrary: acc) (simp_all add: checkResultsLoop_eq)

lemma statusChecksCheck_eq:
  "statusChecksCheck Sprintf v inp \<lparr>Violations = vs\<rparr> =
     \<lparr>Violations = vs @ statusCheckViolations Sprintf v (CheckResults inp)\<rparr>"
  by (simp add: statusChecksCheck_def statusCheckViolations_def requireIdentifiersLoop_eq
        missingIdentifiers_def Addf_def Let_def)

lemma mergeCheck_eq:
  "mergeCheck Sprintf MergeMethods v inp (\<lparr>DeleteSourceBranch = b, AllowedMethods = []\<rparr>, \<lparr>Violations = vs\<rparr>) =
     (\<lparr>DeleteSourceBranch = b,
       AllowedMethods =
        (if Method inp \<noteq> [] then []
         else if StrategiesAllowed (Merge v) \<noteq> [] then StrategiesAllowed (Merge v)
         else MergeMethods)\<rparr>,
      \<lparr>Violations = vs @ mergeViolations Sprintf v (Method inp)\<rparr>)"
  by (simp add: mergeCheck_def mergeViolations_def Addf_def Let_def)

text \<open>
  With a pull request, reviewers that are not nil, and a code-owner evaluation whenever
  the rule requires code owners, \<open>MergeVerify\<close> returns, with a nil error, and its
  report holds the violations of all blocks in order.
\<close>

lemma MergeVerify_report:
  assumes pr: "PullReq inp = Some p"
    and rs: "Reviewers inp = map Some rs"
    and co: "RequireCodeOwners (Approvals v) \<longrightarrow> CodeOwners inp \<noteq> None"
  shows "MergeVerify Sprintf MergeMethods v inp =
           Inr (expectedOutput MergeMethods v inp,
                (if expectedViolations Sprintf v p rs inp = [] then []
                 else [\<lparr>Violations = expectedViolations Sprintf v p rs inp\<rparr>]),
                None)"
  unfolding MergeVerify_def expectedViolations_def expectedOutput_def
  by (simp add: pr rs reviewersLoop_eq minimumCountCheck_eq codeOwnersCheck_eq [OF pr co]
        commentsCheck_eq [OF pr] statusChecksCheck_eq mergeCheck_eq Let_def)

lemma reportedViolations_wrap: "reportedViolations (if vs = [] then [] else [\<lparr>Violations = vs\<rparr>]) = vs"
  by (simp add: reportedViolations_def)

lemma MergeVerify_reported:
  assumes "PullReq inp = Some p" and "Reviewers inp = map Some rs"
    and "RequireCodeOwners (Approvals v) \<longrightarrow> CodeOwners inp \<noteq> None"
  shows "\<exists>out report. MergeVerify Sprintf MergeMethods v inp = Inr (out, report, None) \<and>
           reportedViolations report = expectedViolations Sprintf v p rs inp"
  using MergeVerify_report [OF assms] by (simp add: reportedViolations_def)

subsection \<open>The codes of each block\<close>

lemma changeRequest_codes:
  "x \<in> set (changeRequestViolations Sprintf v p r) \<Longrightarrow>
   Code x = codePullReqApprovalReqChangeRequested \<or>
   Code x = codePullReqApprovalReqChangeRequestedOldSHA"
  by (auto simp: changeRequestViolations_def split: if_splits)

lemma minimumCount_codes:
  "x \<in> set (minimumCountViolations Sprintf v have) \<Longrightarrow>
   Code x = codePullReqApprovalReqMinCount \<or> Code x = codePullReqApprovalReqMinCountLatest"
  by (auto simp: minimumCountViolations_def split: if_splits)

lemma codeOwnerEntry_codes:
  "x \<in> set (codeOwnerEntryViolations Sprintf v p entry) \<Longrightarrow>
   Code x = codePullReqApprovalReqCodeOwnersNoApproval \<or>
   Code x = codePullReqApprovalReqCodeOwnersChangeRequested \<or>
   Code x = codePullReqApprovalReqCodeOwnersNoLatestApproval"
  by (auto simp: codeOwnerEntryViolations_def Let_def split: if_splits prod.splits)

lemma codeOwner_codes:
  "x \<in> set (codeOwnerViolations Sprintf v p co) \<Longrightarrow>
   Code x = codePullReqApprovalReqCodeOwnersNoApproval \<or>
   Code x = codePullReqApprovalReqCodeOwnersChangeRequested \<or>
   Code x = codePullReqApprovalReqCodeOwnersNoLatestApproval"
proof -
  assume "x \<in> set (codeOwnerViolations Sprintf v p co)"
  then have "\<exists>entry. x \<in> set (codeOwnerEntryViolations Sprintf v p entry)"
    by (cases co; cases "RequireCodeOwners (Approvals v)") (auto simp: codeOwnerViolations_def)
  then show ?thesis
    using codeOwnerEntry_codes by blast
qed

lemma comment_codes:
  "x \<in> set (commentViolations Sprintf v p) \<Longrightarrow> Code x = codePullReqCommentsReqResolveAll"
  by (auto simp: commentViolations_def split: if_splits)

lemma statusCheck_codes:
  "x \<in> set (statusCheckViolations Sprintf v results) \<Longrightarrow> Code x = codePullReqStatusChecksReqIdentifiers"
  by (auto simp: statusCheckViolations_def split: if_splits)

lemma merge_codes:
  "x \<in> set (mergeViolations Sprintf v method) \<Longrightarrow> Code x = codePullReqMergeStrategiesAllowed"
  by (auto simp: mergeViolations_def split: if_splits)

lemma filter_none: "(\<And>x. x \<in> set xs \<Longrightarrow> \<not> P x) \<Longrightarrow> filter P xs = []"
  by (simp add: filter_empty_conv)

lemma filter_all: "(\<And>x. x \<in> set xs \<Longrightarrow> P x) \<Longrightarrow> filter P xs = xs"
  by (simp add: filter_id_conv)

lemma status_filter:
  "filter (hasCode {codePullReqStatusChecksReqIdentifiers}) (expectedViolations Sprintf v p rs inp) =
     statusCheckViolations Sprintf v (CheckResults inp)"
proof -
  have a: "filter (hasCode {codePullReqStatusChecksReqIdentifiers})
             (concat (map (changeRequestViolations Sprintf v p) rs)) = []"
    by (rule filter_none) (auto simp: hasCode_def dest!: changeRequest_codes)
  have b: "filter (hasCode {codePullReqStatusChecksReqIdentifiers})
             (minimumCountViolations Sprintf v n) = []" for n
    by (rule filter_none) (auto simp: hasCode_def dest!: minimumCount_codes)
  have c: "filter (hasCode {codePullReqStatusChecksReqIdentifiers})
             (codeOwnerViolations Sprintf v p (CodeOwners inp)) = []"
    by (rule filter_none) (auto simp: hasCode_def dest!: codeOwner_codes)
  have d: "filter (hasCode {codePullReqStatusChecksReqIdentifiers}) (commentViolations Sprintf v p) = []"
    by (rule filter_none) (auto simp: hasCode_def dest!: comment_codes)
  have e: "filter (hasCode {codePullReqStatusChecksReqIdentifiers})
             (mergeViolations Sprintf v (Method inp)) = []"
    by (rule filter_none) (auto simp: hasCode_def dest!: merge_codes)
  have f: "filter (hasCode {codePullReqStatusChecksReqIdentifiers})
             (statusCheckViolations Sprintf v (CheckResults inp)) = statusCheckViolations Sprintf v (CheckResults inp)"
    by (rule filter_all) (auto simp: hasCode_def dest!: statusCheck_codes)
  show ?thesis
    by (simp add: expectedViolations_def a b c d e f)
qed

lemma minimumCount_filter:
  "filter (hasCode {codePullReqApprovalReqMinCount, codePullReqApprovalReqMinCountLatest})
     (expectedViolations Sprintf v p rs inp) =
   minimumCountViolations Sprintf v (int (length (filter (qualifyingApproval v p) rs)))"
proof -
  let ?P = "hasCode {codePullReqApprovalReqMinCount, codePullReqApprovalReqMinCountLatest}"
  have a: "filter ?P (concat (map (changeRequestViolations Sprintf v p) rs)) = []"
    by (rule filter_none) (auto simp: hasCode_def dest!: changeRequest_codes)
  have b: "filter ?P (minimumCountViolations Sprintf v n) = minimumCountViolations Sprintf v n" for n
    by (rule filter_all) (auto simp: hasCode_def dest!: minimumCount_codes)
  have c: "filter ?P (codeOwnerViolations Sprintf v p (CodeOwners inp)) = []"
    by (rule filter_none) (auto simp: hasCode_def dest!: codeOwner_codes)
  have d: "filter ?P (commentViolations Sprintf v p) = []"
    by (rule filter_none) (auto simp: hasCode_def dest!: comment_codes)
  have e: "filter ?P (mergeViolations Sprintf v (Method inp)) = []"
    by (rule filter_none) (auto simp: hasCode_def dest!: merge_codes)
  have f: "filter ?P (statusCheckViolations Sprintf v (CheckResults inp)) = []"
    by (rule filter_none) (auto simp: hasCode_def dest!: statusCheck_codes)
  show ?thesis
    by (simp add: expectedViolations_def a b c d e f)
qed

lemmas MergeVerify_defs = MergeVerify_def minimumCountCheck_def codeOwnersCheck_def commentsCheck_def
  statusChecksCheck_def mergeCheck_def Addf_def Let_def

subsection \<open>Status checks\<close>

text \<open>
  C1, as amended. In \<open>MergeVerify\<close>, a required status-check identifier is satisfied
  if and only if the first check result in the input list with that identifier has
  status success (\<open>missingIdentifiers\<close> are the required identifiers that are not).
  All unsatisfied identifiers are reported together in exactly one violation that lists
  all of them, and no status-check violation is reported when every required identifier
  is satisfied.
\<close>

theorem MergeVerify_status_checks:
  assumes "PullReq inp = Some p" and "Reviewers inp = map Some rs"
    and "RequireCodeOwners (Approvals v) \<longrightarrow> CodeOwners inp \<noteq> None"
  shows "\<exists>out report. MergeVerify Sprintf MergeMethods v inp = Inr (out, report, None) \<and>
           filter (hasCode {codePullReqStatusChecksReqIdentifiers}) (reportedViolations report) =
             (if missingIdentifiers v (CheckResults inp) = [] then []
              else
                [\<lparr>Code = codePullReqStatusChecksReqIdentifiers,
                  Message = Sprintf
                    ''The following status checks are required to be completed successfully: %s''
                    [ArgString (Join (missingIdentifiers v (CheckResults inp)) '', '')]\<rparr>])"
proof -
  obtain out report where run: "MergeVerify Sprintf MergeMethods v inp = Inr (out, report, None)"
    and rep: "reportedViolations report = expectedViolations Sprintf v p rs inp"
    using MergeVerify_reported [OF assms] by blast
  have "filter (hasCode {codePullReqStatusChecksReqIdentifiers}) (reportedViolations report) =
          statusCheckViolations Sprintf v (CheckResults inp)"
    by (simp only: rep status_filter)
  with run show ?thesis
    by (simp only: statusCheckViolations_def) blast
qed

text \<open>
  Three required identifiers, of which one succeeded, one failed and one has no
  result: one violation lists the two that are missing.
\<close>

theorem MergeVerify_status_checks_witness:
  "\<exists>out report.
     MergeVerify ex_Sprintf ex_methods (ex_policy False 0 False False [''build'', ''lint'', ''test''])
       (ex_input []
          [\<lparr>Identifier = ''build'', Status = CheckStatusSuccess\<rparr>,
           \<lparr>Identifier = ''lint'', Status = CheckStatusFailure\<rparr>] None) =
       Inr (out, report, None) \<and>
     filter (hasCode {codePullReqStatusChecksReqIdentifiers}) (reportedViolations report) =
       [\<lparr>Code = ''pullreq.status_checks.required_identifiers'',
         Message =
           ''The following status checks are required to be completed successfully: lint, test''\<rparr>]"
  using MergeVerify_status_checks
    [where inp = "ex_input []
          [\<lparr>Identifier = ''build'', Status = CheckStatusSuccess\<rparr>,
           \<lparr>Identifier = ''lint'', Status = CheckStatusFailure\<rparr>] None"
       and p = ex_pr and rs = "[]"
       and v = "ex_policy False 0 False False [''build'', ''lint'', ''test'']"
       and MergeMethods = ex_methods and Sprintf = ex_Sprintf]
  by (simp add: ex_policy_def ex_input_def missingIdentifiers_def firstResultSucceeded_def)

text \<open>
  C1 as stated fails: with the results failure and then success for the identifier
  \<open>ci\<close>, some check result with that identifier has status success, and the
  identifier is reported as not satisfied, because the first result decides.
\<close>

theorem MergeVerify_status_checks_first_result:
  "\<lparr>Identifier = ''ci'', Status = CheckStatusSuccess\<rparr> \<in>
     set [\<lparr>Identifier = ''ci'', Status = CheckStatusFailure\<rparr>,
          \<lparr>Identifier = ''ci'', Status = CheckStatusSuccess\<rparr>] \<and>
   MergeVerify ex_Sprintf ex_methods (ex_policy False 0 False False [''ci''])
     (ex_input []
        [\<lparr>Identifier = ''ci'', Status = CheckStatusFailure\<rparr>,
         \<lparr>Identifier = ''ci'', Status = CheckStatusSuccess\<rparr>] None) =
     Inr (\<lparr>DeleteSourceBranch = False, AllowedMethods = []\<rparr>,
          [\<lparr>Violations =
              [\<lparr>Code = ''pullreq.status_checks.required_identifiers'',
                Message =
                  ''The following status checks are required to be completed successfully: ci''\<rparr>]\<rparr>],
          None)"
  by (simp add: MergeVerify_defs ex_policy_def ex_input_def)

subsection \<open>The minimum number of approvals\<close>

text \<open>
  C2. In \<open>MergeVerify\<close>, a reviewer's decision counts as a qualifying approval if and
  only if it is an approval and, when the latest commit is required, its SHA is the
  source SHA of the pull request. For a rule with minimum count \<open>need\<close>: exactly
  \<open>need - 1\<close> qualifying approvals yield the minimum-count violation, in its
  latest-commit variant when the latest commit is required, and \<open>need\<close> qualifying
  approvals yield no minimum-count violation.
\<close>

theorem MergeVerify_minimum_count:
  assumes "PullReq inp = Some p" and "Reviewers inp = map Some rs"
    and "RequireCodeOwners (Approvals v) \<longrightarrow> CodeOwners inp \<noteq> None"
  shows "\<exists>out report. MergeVerify Sprintf MergeMethods v inp = Inr (out, report, None) \<and>
           (let have = int (length (filter (qualifyingApproval v p) rs));
                need = RequireMinimumCount (Approvals v);
                found = filter
                  (hasCode {codePullReqApprovalReqMinCount, codePullReqApprovalReqMinCountLatest})
                  (reportedViolations report)
            in (have = need - 1 \<longrightarrow>
                  found =
                    [if RequireLatestCommit (Approvals v) then
                       \<lparr>Code = codePullReqApprovalReqMinCountLatest,
                        Message = Sprintf
                          ''Insufficient number of approvals of the latest commit. Have %d but need at least %d.''
                          [ArgInt have, ArgInt need]\<rparr>
                     else
                       \<lparr>Code = codePullReqApprovalReqMinCount,
                        Message = Sprintf
                          ''Insufficient number of approvals. Have %d but need at least %d.''
                          [ArgInt have, ArgInt need]\<rparr>]) \<and>
               (have = need \<longrightarrow> found = []))"
proof -
  obtain out report where run: "MergeVerify Sprintf MergeMethods v inp = Inr (out, report, None)"
    and rep: "reportedViolations report = expectedViolations Sprintf v p rs inp"
    using MergeVerify_reported [OF assms] by blast
  have found: "filter
      (hasCode {codePullReqApprovalReqMinCount, codePullReqApprovalReqMinCountLatest})
      (reportedViolations report) =
        minimumCountViolations Sprintf v (int (length (filter (qualifyingApproval v p) rs)))"
    by (simp only: rep minimumCount_filter)
  show ?thesis
    apply (rule exI [of _ out], rule exI [of _ report])
    apply (simp only: run found Let_def minimumCountViolations_def)
    apply simp
    done
qed

text \<open>
  Minimum two on the latest commit, one approval on the source SHA, one on an older
  SHA and one pending reviewer: one qualifying approval, and the violation.
\<close>

theorem MergeVerify_minimum_count_witness:
  "\<exists>out report.
     MergeVerify ex_Sprintf ex_methods (ex_policy False 2 True False [])
       (ex_input
          [Some (ex_reviewer ''ann'' PullReqReviewDecisionApproved ''b2''),
           Some (ex_reviewer ''bob'' PullReqReviewDecisionApproved ''a1''),
           Some (ex_reviewer ''cy'' PullReqReviewDecisionPending [])] [] None) =
       Inr (out, report, None) \<and>
     filter (hasCode {codePullReqApprovalReqMinCount, codePullReqApprovalReqMinCountLatest})
       (reportedViolations report) =
       [\<lparr>Code = ''pullreq.approvals.require_minimum_count:latest_commit'',
         Message =
           ''Insufficient number of approvals of the latest commit. Have 1 but need at least 2.''\<rparr>]"
  using MergeVerify_minimum_count
    [where inp = "ex_input
          [Some (ex_reviewer ''ann'' PullReqReviewDecisionApproved ''b2''),
           Some (ex_reviewer ''bob'' PullReqReviewDecisionApproved ''a1''),
           Some (ex_reviewer ''cy'' PullReqReviewDecisionPending [])] [] None"
       and p = ex_pr
       and rs = "[ex_reviewer ''ann'' PullReqReviewDecisionApproved ''b2'',
          ex_reviewer ''bob'' PullReqReviewDecisionApproved ''a1'',
          ex_reviewer ''cy'' PullReqReviewDecisionPending []]"
       and v = "ex_policy False 2 True False []"
       and MergeMethods = ex_methods and Sprintf = ex_Sprintf]
  by (simp add: ex_policy_def ex_input_def ex_reviewer_def ex_pr_def qualifyingApproval_def
        Itoa_def nat_digits.simps digit_char_def)

subsection \<open>Completeness of the report\<close>

lemma length_concat_filter:
  assumes "\<And>x. length (f x) = (if P x then 1 else 0)"
  shows "length (concat (map f xs)) = length (filter P xs)"
  by (induction xs) (simp_all add: assms)

lemma changeRequestViolations_length:
  "length (changeRequestViolations Sprintf v p r) = (if changeRequested v r then 1 else 0)"
  by (simp add: changeRequestViolations_def changeRequested_def)

lemma codeOwnerEntryViolations_length:
  "length (codeOwnerEntryViolations Sprintf v p entry) =
     (if entryNotApproved v p entry then 1 else 0)"
  by (cases "getCodeOwnerApprovalStatus entry")
     (simp add: codeOwnerEntryViolations_def entryNotApproved_def)

lemma codeOwnerViolations_entries:
  "codeOwnerViolations Sprintf v p (CodeOwners inp) =
     concat (map (codeOwnerEntryViolations Sprintf v p) (ownerEntries v inp))"
  by (simp add: codeOwnerViolations_def ownerEntries_def split: option.splits)

lemma condStatusChecks_missing:
  "condStatusChecks v results \<longleftrightarrow> missingIdentifiers v results \<noteq> []"
  by (simp add: condStatusChecks_def missingIdentifiers_def list_ex_iff filter_empty_conv)

lemma expectedViolations_length:
  "length (expectedViolations Sprintf v p rs inp) = conditionCount v p rs inp"
proof -
  have a: "length (concat (map (changeRequestViolations Sprintf v p) rs)) =
      length (filter (changeRequested v) rs)"
    by (rule length_concat_filter) (rule changeRequestViolations_length)
  have b: "length (minimumCountViolations Sprintf v
        (int (length (filter (qualifyingApproval v p) rs)))) =
      (if condInsufficientApprovals v p rs then 1 else 0)"
    by (simp add: minimumCountViolations_def condInsufficientApprovals_def)
  have c: "length (codeOwnerViolations Sprintf v p (CodeOwners inp)) =
      length (filter (entryNotApproved v p) (ownerEntries v inp))"
    unfolding codeOwnerViolations_entries
    by (rule length_concat_filter) (rule codeOwnerEntryViolations_length)
  have d: "length (commentViolations Sprintf v p) =
      (if condUnresolvedComments v p then 1 else 0)"
    by (simp add: commentViolations_def condUnresolvedComments_def)
  have e: "length (statusCheckViolations Sprintf v (CheckResults inp)) =
      (if condStatusChecks v (CheckResults inp) then 1 else 0)"
    by (simp add: statusCheckViolations_def condStatusChecks_missing)
  have f: "length (mergeViolations Sprintf v (Method inp)) =
      (if condMergeStrategy v (Method inp) then 1 else 0)"
    by (simp add: mergeViolations_def condMergeStrategy_def)
  show ?thesis
    by (simp only: expectedViolations_def conditionCount_def length_append a b c d e f)
qed

lemma changeRequested_reported:
  assumes "r \<in> set rs" and "changeRequested v r"
  shows "(if PullReqReviewer.SHA r = PullReq.SourceSHA p then
            \<lparr>Code = codePullReqApprovalReqChangeRequested,
             Message = Sprintf ''Reviewer %s requested changes''
                         [ArgString (DisplayName (Reviewer r))]\<rparr>
          else
            \<lparr>Code = codePullReqApprovalReqChangeRequestedOldSHA,
             Message = Sprintf ''Reviewer %s requested changes for an older commit''
                         [ArgString (DisplayName (Reviewer r))]\<rparr>)
         \<in> set (expectedViolations Sprintf v p rs inp)"
proof -
  from assms(2) have "changeRequestViolations Sprintf v p r =
      [if PullReqReviewer.SHA r = PullReq.SourceSHA p then
            \<lparr>Code = codePullReqApprovalReqChangeRequested,
             Message = Sprintf ''Reviewer %s requested changes''
                         [ArgString (DisplayName (Reviewer r))]\<rparr>
          else
            \<lparr>Code = codePullReqApprovalReqChangeRequestedOldSHA,
             Message = Sprintf ''Reviewer %s requested changes for an older commit''
                         [ArgString (DisplayName (Reviewer r))]\<rparr>]"
    by (simp add: changeRequestViolations_def changeRequested_def)
  with assms(1) show ?thesis
    unfolding expectedViolations_def by (simp only: set_append set_concat set_map) force
qed

lemma ownerEntry_reported:
  assumes "entry \<in> set (ownerEntries v inp)"
    and "x \<in> set (codeOwnerEntryViolations Sprintf v p entry)"
  shows "x \<in> set (expectedViolations Sprintf v p rs inp)"
  using assms unfolding expectedViolations_def codeOwnerViolations_entries
  by (simp only: set_append set_concat set_map) blast

text \<open>
  C3. \<open>MergeVerify\<close> never stops at the first violation: the returned report holds
  the violation of every condition that holds, that is, of every reviewer who
  requested changes, of too few approvals, of every code-owner pattern that is pending,
  change-requested or approved without an approval of the latest commit, of unresolved
  comments, of the required status checks that did not succeed and of a merge strategy
  that is not allowed; and the report has exactly as many violations as conditions
  hold, so with two or more conditions it has at least two violations.
\<close>

theorem MergeVerify_reports_every_violation:
  assumes "PullReq inp = Some p" and "Reviewers inp = map Some rs"
    and "RequireCodeOwners (Approvals v) \<longrightarrow> CodeOwners inp \<noteq> None"
  shows "\<exists>out report. MergeVerify Sprintf MergeMethods v inp = Inr (out, report, None) \<and>
           (\<forall>r\<in>set rs. changeRequested v r \<longrightarrow>
              (if PullReqReviewer.SHA r = PullReq.SourceSHA p then
                 \<lparr>Code = codePullReqApprovalReqChangeRequested,
                  Message = Sprintf ''Reviewer %s requested changes''
                              [ArgString (DisplayName (Reviewer r))]\<rparr>
               else
                 \<lparr>Code = codePullReqApprovalReqChangeRequestedOldSHA,
                  Message = Sprintf ''Reviewer %s requested changes for an older commit''
                              [ArgString (DisplayName (Reviewer r))]\<rparr>)
              \<in> set (reportedViolations report)) \<and>
           (condInsufficientApprovals v p rs \<longrightarrow>
              (if RequireLatestCommit (Approvals v) then
                 \<lparr>Code = codePullReqApprovalReqMinCountLatest,
                  Message = Sprintf
                    ''Insufficient number of approvals of the latest commit. Have %d but need at least %d.''
                    [ArgInt (int (length (filter (qualifyingApproval v p) rs))),
                     ArgInt (RequireMinimumCount (Approvals v))]\<rparr>
               else
                 \<lparr>Code = codePullReqApprovalReqMinCount,
                  Message = Sprintf
                    ''Insufficient number of approvals. Have %d but need at least %d.''
                    [ArgInt (int (length (filter (qualifyingApproval v p) rs))),
                     ArgInt (RequireMinimumCount (Approvals v))]\<rparr>)
              \<in> set (reportedViolations report)) \<and>
           (\<forall>entry\<in>set (ownerEntries v inp).
              (fst (getCodeOwnerApprovalStatus entry) = PullReqReviewDecisionPending \<longrightarrow>
                 \<lparr>Code = codePullReqApprovalReqCodeOwnersNoApproval,
                  Message = Sprintf ''Code owners approval pending for %q''
                              [ArgString (Pattern entry)]\<rparr>
                 \<in> set (reportedViolations report)) \<and>
              (fst (getCodeOwnerApprovalStatus entry) = PullReqReviewDecisionChangeReq \<longrightarrow>
                 \<lparr>Code = codePullReqApprovalReqCodeOwnersChangeRequested,
                  Message = Sprintf ''Code owners requested changes for %q''
                              [ArgString (Pattern entry)]\<rparr>
                 \<in> set (reportedViolations report)) \<and>
              (fst (getCodeOwnerApprovalStatus entry) = PullReqReviewDecisionApproved \<and>
               RequireLatestCommit (Approvals v) \<and>
               \<not> list_ex (\<lambda>ev. ReviewSHA ev = PullReq.SourceSHA p)
                    (snd (getCodeOwnerApprovalStatus entry)) \<longrightarrow>
                 \<lparr>Code = codePullReqApprovalReqCodeOwnersNoLatestApproval,
                  Message = Sprintf ''Code owners approval pending on latest commit for %q''
                              [ArgString (Pattern entry)]\<rparr>
                 \<in> set (reportedViolations report))) \<and>
           (condUnresolvedComments v p \<longrightarrow>
              \<lparr>Code = codePullReqCommentsReqResolveAll,
               Message = Sprintf
                 ''All comments must be resolved. There are %d unresolved comments.''
                 [ArgInt (UnresolvedCount p)]\<rparr>
              \<in> set (reportedViolations report)) \<and>
           (condStatusChecks v (CheckResults inp) \<longrightarrow>
              \<lparr>Code = codePullReqStatusChecksReqIdentifiers,
               Message = Sprintf
                 ''The following status checks are required to be completed successfully: %s''
                 [ArgString (Join (missingIdentifiers v (CheckResults inp)) '', '')]\<rparr>
              \<in> set (reportedViolations report)) \<and>
           (condMergeStrategy v (Method inp) \<longrightarrow>
              \<lparr>Code = codePullReqMergeStrategiesAllowed,
               Message = Sprintf
                 ''The requested merge strategy %q is not allowed. Allowed strategies are %v.''
                 [ArgString (Method inp), ArgStrings (StrategiesAllowed (Merge v))]\<rparr>
              \<in> set (reportedViolations report)) \<and>
           length (reportedViolations report) = conditionCount v p rs inp \<and>
           (2 \<le> conditionCount v p rs inp \<longrightarrow> 2 \<le> length (reportedViolations report))"
proof -
  obtain out report where run: "MergeVerify Sprintf MergeMethods v inp = Inr (out, report, None)"
    and rep: "reportedViolations report = expectedViolations Sprintf v p rs inp"
    using MergeVerify_reported [OF assms] by blast
  let ?all = "expectedViolations Sprintf v p rs inp"
  have c1: "\<forall>r\<in>set rs. changeRequested v r \<longrightarrow>
              (if PullReqReviewer.SHA r = PullReq.SourceSHA p then
                 \<lparr>Code = codePullReqApprovalReqChangeRequested,
                  Message = Sprintf ''Reviewer %s requested changes''
                              [ArgString (DisplayName (Reviewer r))]\<rparr>
               else
                 \<lparr>Code = codePullReqApprovalReqChangeRequestedOldSHA,
                  Message = Sprintf ''Reviewer %s requested changes for an older commit''
                              [ArgString (DisplayName (Reviewer r))]\<rparr>)
              \<in> set ?all"
    using changeRequested_reported by blast
  have c2: "condInsufficientApprovals v p rs \<longrightarrow>
              (if RequireLatestCommit (Approvals v) then
                 \<lparr>Code = codePullReqApprovalReqMinCountLatest,
                  Message = Sprintf
                    ''Insufficient number of approvals of the latest commit. Have %d but need at least %d.''
                    [ArgInt (int (length (filter (qualifyingApproval v p) rs))),
                     ArgInt (RequireMinimumCount (Approvals v))]\<rparr>
               else
                 \<lparr>Code = codePullReqApprovalReqMinCount,
                  Message = Sprintf
                    ''Insufficient number of approvals. Have %d but need at least %d.''
                    [ArgInt (int (length (filter (qualifyingApproval v p) rs))),
                     ArgInt (RequireMinimumCount (Approvals v))]\<rparr>)
              \<in> set ?all"
    by (simp add: expectedViolations_def minimumCountViolations_def condInsufficientApprovals_def)
  have c3: "\<forall>entry\<in>set (ownerEntries v inp).
              (fst (getCodeOwnerApprovalStatus entry) = PullReqReviewDecisionPending \<longrightarrow>
                 \<lparr>Code = codePullReqApprovalReqCodeOwnersNoApproval,
                  Message = Sprintf ''Code owners approval pending for %q''
                              [ArgString (Pattern entry)]\<rparr>
                 \<in> set ?all) \<and>
              (fst (getCodeOwnerApprovalStatus entry) = PullReqReviewDecisionChangeReq \<longrightarrow>
                 \<lparr>Code = codePullReqApprovalReqCodeOwnersChangeRequested,
                  Message = Sprintf ''Code owners requested changes for %q''
                              [ArgString (Pattern entry)]\<rparr>
                 \<in> set ?all) \<and>
              (fst (getCodeOwnerApprovalStatus entry) = PullReqReviewDecisionApproved \<and>
               RequireLatestCommit (Approvals v) \<and>
               \<not> list_ex (\<lambda>ev. ReviewSHA ev = PullReq.SourceSHA p)
                    (snd (getCodeOwnerApprovalStatus entry)) \<longrightarrow>
                 \<lparr>Code = codePullReqApprovalReqCodeOwnersNoLatestApproval,
                  Message = Sprintf ''Code owners approval pending on latest commit for %q''
                              [ArgString (Pattern entry)]\<rparr>
                 \<in> set ?all)"
  proof (intro ballI conjI impI)
    fix entry
    assume entry: "entry \<in> set (ownerEntries v inp)"
    {
      assume "fst (getCodeOwnerApprovalStatus entry) = PullReqReviewDecisionPending"
      then have "\<lparr>Code = codePullReqApprovalReqCodeOwnersNoApproval,
                  Message = Sprintf ''Code owners approval pending for %q''
                              [ArgString (Pattern entry)]\<rparr>
                 \<in> set (codeOwnerEntryViolations Sprintf v p entry)"
        by (cases "getCodeOwnerApprovalStatus entry") (simp add: codeOwnerEntryViolations_def)
      then show "\<lparr>Code = codePullReqApprovalReqCodeOwnersNoApproval,
                  Message = Sprintf ''Code owners approval pending for %q''
                              [ArgString (Pattern entry)]\<rparr> \<in> set ?all"
        by (rule ownerEntry_reported [OF entry])
    }
    {
      assume "fst (getCodeOwnerApprovalStatus entry) = PullReqReviewDecisionChangeReq"
      then have "\<lparr>Code = codePullReqApprovalReqCodeOwnersChangeRequested,
                  Message = Sprintf ''Code owners requested changes for %q''
                              [ArgString (Pattern entry)]\<rparr>
                 \<in> set (codeOwnerEntryViolations Sprintf v p entry)"
        by (cases "getCodeOwnerApprovalStatus entry") (simp add: codeOwnerEntryViolations_def)
      then show "\<lparr>Code = codePullReqApprovalReqCodeOwnersChangeRequested,
                  Message = Sprintf ''Code owners requested changes for %q''
                              [ArgString (Pattern entry)]\<rparr> \<in> set ?all"
        by (rule ownerEntry_reported [OF entry])
    }
    {
      assume "fst (getCodeOwnerApprovalStatus entry) = PullReqReviewDecisionApproved \<and>
               RequireLatestCommit (Approvals v) \<and>
               \<not> list_ex (\<lambda>ev. ReviewSHA ev = PullReq.SourceSHA p)
                    (snd (getCodeOwnerApprovalStatus entry))"
      then have "\<lparr>Code = codePullReqApprovalReqCodeOwnersNoLatestApproval,
                  Message = Sprintf ''Code owners approval pending on latest commit for %q''
                              [ArgString (Pattern entry)]\<rparr>
                 \<in> set (codeOwnerEntryViolations Sprintf v p entry)"
        by (cases "getCodeOwnerApprovalStatus entry") (simp add: codeOwnerEntryViolations_def)
      then show "\<lparr>Code = codePullReqApprovalReqCodeOwnersNoLatestApproval,
                  Message = Sprintf ''Code owners approval pending on latest commit for %q''
                              [ArgString (Pattern entry)]\<rparr> \<in> set ?all"
        by (rule ownerEntry_reported [OF entry])
    }
  qed
  have c4: "condUnresolvedComments v p \<longrightarrow>
              \<lparr>Code = codePullReqCommentsReqResolveAll,
               Message = Sprintf
                 ''All comments must be resolved. There are %d unresolved comments.''
                 [ArgInt (UnresolvedCount p)]\<rparr> \<in> set ?all"
    by (simp add: expectedViolations_def commentViolations_def condUnresolvedComments_def)
  have c5: "condStatusChecks v (CheckResults inp) \<longrightarrow>
              \<lparr>Code = codePullReqStatusChecksReqIdentifiers,
               Message = Sprintf
                 ''The following status checks are required to be completed successfully: %s''
                 [ArgString (Join (missingIdentifiers v (CheckResults inp)) '', '')]\<rparr>
              \<in> set ?all"
    by (simp add: expectedViolations_def statusCheckViolations_def condStatusChecks_missing)
  have c6: "condMergeStrategy v (Method inp) \<longrightarrow>
              \<lparr>Code = codePullReqMergeStrategiesAllowed,
               Message = Sprintf
                 ''The requested merge strategy %q is not allowed. Allowed strategies are %v.''
                 [ArgString (Method inp), ArgStrings (StrategiesAllowed (Merge v))]\<rparr>
              \<in> set ?all"
    by (simp add: expectedViolations_def mergeViolations_def condMergeStrategy_def)
  have count: "length ?all = conditionCount v p rs inp"
    by (rule expectedViolations_length)
  show ?thesis
    apply (rule exI [of _ out], rule exI [of _ report])
    apply (simp only: run rep count)
    using c1 c2 c3 c4 c5 c6
    apply blast
    done
qed

text \<open>
  Nobody approved where one approval is needed, two reviewers requested changes, one of
  them on an older commit, two code-owner patterns are pending, comments are unresolved
  and a required check has no result: seven conditions and seven violations, among
  them one for each pattern.
\<close>

theorem MergeVerify_reports_every_violation_witness:
  "\<exists>out report.
     MergeVerify ex_Sprintf ex_methods (ex_policy_strict [''ci''])
       (ex_input
          [Some (ex_reviewer ''ann'' PullReqReviewDecisionChangeReq ''b2''),
           Some (ex_reviewer ''bob'' PullReqReviewDecisionChangeReq ''a1'')]
          []
          (Some \<lparr>EvaluationEntries =
             [\<lparr>Pattern = ''*.go'', OwnerEvaluations = [], UserGroupOwnerEvaluations = []\<rparr>,
              \<lparr>Pattern = ''docs/'', OwnerEvaluations = [],
                UserGroupOwnerEvaluations = []\<rparr>]\<rparr>)) =
       Inr (out, report, None) \<and>
     \<lparr>Code = ''pullreq.approvals.require_change_requested'',
      Message = ''Reviewer ann requested changes''\<rparr> \<in> set (reportedViolations report) \<and>
     \<lparr>Code = ''pullreq.approvals.require_change_requested_old_SHA'',
      Message = ''Reviewer bob requested changes for an older commit''\<rparr>
       \<in> set (reportedViolations report) \<and>
     \<lparr>Code = ''pullreq.approvals.require_code_owners:no_approval'',
      Message = ex_Sprintf ''Code owners approval pending for %q'' [ArgString ''*.go'']\<rparr>
       \<in> set (reportedViolations report) \<and>
     \<lparr>Code = ''pullreq.approvals.require_code_owners:no_approval'',
      Message = ex_Sprintf ''Code owners approval pending for %q'' [ArgString ''docs/'']\<rparr>
       \<in> set (reportedViolations report) \<and>
     length (reportedViolations report) = 7"
  using MergeVerify_reports_every_violation
    [where inp = "ex_input
          [Some (ex_reviewer ''ann'' PullReqReviewDecisionChangeReq ''b2''),
           Some (ex_reviewer ''bob'' PullReqReviewDecisionChangeReq ''a1'')]
          []
          (Some \<lparr>EvaluationEntries =
             [\<lparr>Pattern = ''*.go'', OwnerEvaluations = [], UserGroupOwnerEvaluations = []\<rparr>,
              \<lparr>Pattern = ''docs/'', OwnerEvaluations = [],
                UserGroupOwnerEvaluations = []\<rparr>]\<rparr>)"
       and p = ex_pr
       and rs = "[ex_reviewer ''ann'' PullReqReviewDecisionChangeReq ''b2'',
                  ex_reviewer ''bob'' PullReqReviewDecisionChangeReq ''a1'']"
       and v = "ex_policy_strict [''ci'']"
       and MergeMethods = ex_methods and Sprintf = ex_Sprintf]
  by (simp add: ex_policy_strict_def ex_input_def ex_pr_def ex_reviewer_def conditionCount_def
        changeRequested_def condInsufficientApprovals_def ownerEntries_def entryNotApproved_def
        condUnresolvedComments_def condStatusChecks_def condMergeStrategy_def
        firstResultSucceeded_def qualifyingApproval_def getCodeOwnerApprovalStatus_def)
     auto

subsection \<open>Errors and panics\<close>

lemma wellformed_reviewers: "None \<notin> set xs \<Longrightarrow> xs = map Some (map the xs)"
  by (induction xs) auto

lemma MergeVerify_error_nil:
  "MergeVerify Sprintf MergeMethods v inp = Inr (out, report, err) \<Longrightarrow> err = None"
  by (auto simp: MergeVerify_def Let_def split: sum.splits prod.splits if_splits)

text \<open>
  C8, as amended. \<open>MergeVerify\<close> never returns an error, whatever the rule and the
  input. It returns, with its output and violations, for every input whose pull request
  and reviewers are not nil and whose code-owner evaluation is not nil when the rule
  requires code owners; an empty list of reviewers, an empty list of check results and
  an empty code-owner evaluation are such inputs.
\<close>

theorem MergeVerify_total:
  "(MergeVerify Sprintf MergeMethods v inp = Inr (out, report, err) \<longrightarrow> err = None) \<and>
   (PullReq inp \<noteq> None \<and> None \<notin> set (Reviewers inp) \<and>
    (RequireCodeOwners (Approvals v) \<longrightarrow> CodeOwners inp \<noteq> None) \<longrightarrow>
      (\<exists>out' report'. MergeVerify Sprintf MergeMethods v inp = Inr (out', report', None)))"
proof (intro conjI impI)
  assume "MergeVerify Sprintf MergeMethods v inp = Inr (out, report, err)"
  then show "err = None" by (rule MergeVerify_error_nil)
next
  assume wf: "PullReq inp \<noteq> None \<and> None \<notin> set (Reviewers inp) \<and>
    (RequireCodeOwners (Approvals v) \<longrightarrow> CodeOwners inp \<noteq> None)"
  then obtain p where p: "PullReq inp = Some p" by auto
  from wf have rs: "Reviewers inp = map Some (map the (Reviewers inp))"
    by (intro wellformed_reviewers) simp
  from wf have co: "RequireCodeOwners (Approvals v) \<longrightarrow> CodeOwners inp \<noteq> None" by simp
  show "\<exists>out' report'. MergeVerify Sprintf MergeMethods v inp = Inr (out', report', None)"
    using MergeVerify_reported [OF p rs co] by blast
qed

text \<open>
  Code owners required, no reviewers, no check results and an evaluation without
  entries.
\<close>

theorem MergeVerify_total_witness:
  "MergeVerify ex_Sprintf ex_methods (ex_policy True 0 False False [])
     (ex_input [] [] (Some \<lparr>EvaluationEntries = []\<rparr>)) =
     Inr (\<lparr>DeleteSourceBranch = False, AllowedMethods = []\<rparr>, [], None)"
  using MergeVerify_total
    [where v = "ex_policy True 0 False False []"
       and inp = "ex_input [] [] (Some \<lparr>EvaluationEntries = []\<rparr>)"
       and MergeMethods = ex_methods and Sprintf = ex_Sprintf
       and out = "\<lparr>DeleteSourceBranch = False, AllowedMethods = []\<rparr>"
       and report = "[]" and err = None]
  by (simp add: MergeVerify_defs ex_policy_def ex_input_def)

text \<open>
  C8 as stated fails: when the rule requires code owners and the code-owner evaluation
  is absent (a nil pointer), \<open>MergeVerify\<close> reads \<open>in.CodeOwners.EvaluationEntries\<close>
  and panics.
\<close>

theorem MergeVerify_absent_code_owners:
  "MergeVerify ex_Sprintf ex_methods (ex_policy True 0 False False []) (ex_input [] [] None) =
     Inl NilPointerDereference"
  by (simp add: MergeVerify_defs ex_policy_def ex_input_def)

section \<open>Properties of the post-receive hook\<close>

text \<open>
  C7. For every branch update whose old and new hash are not nil, a BranchUpdated event
  is reported; if the ancestry query returns an error, its forced flag is true, and in
  general the flag is true exactly when the query failed or answered that the old hash
  is not an ancestor of the new hash.
\<close>

theorem reportBranchEvent_forced:
  assumes "ReferenceUpdate.Old branchUpdate \<noteq> NilSHA"
    and "ReferenceUpdate.New branchUpdate \<noteq> NilSHA"
  shows "\<exists>payload.
           reportBranchEvent c repo principalID branchUpdate events =
             events @ [BranchUpdated payload] \<and>
           BranchUpdatedPayload.Ref payload = ReferenceUpdate.Ref branchUpdate \<and>
           BranchUpdatedPayload.OldSHA payload = ReferenceUpdate.Old branchUpdate \<and>
           BranchUpdatedPayload.NewSHA payload = ReferenceUpdate.New branchUpdate \<and>
           ((\<exists>err. IsAncestor c (Repository.GitUID repo) (ReferenceUpdate.Old branchUpdate)
                      (ReferenceUpdate.New branchUpdate) = Inl err) \<longrightarrow>
              BranchUpdatedPayload.Forced payload) \<and>
           (BranchUpdatedPayload.Forced payload \<longleftrightarrow>
              (\<exists>err. IsAncestor c (Repository.GitUID repo) (ReferenceUpdate.Old branchUpdate)
                      (ReferenceUpdate.New branchUpdate) = Inl err) \<or>
              IsAncestor c (Repository.GitUID repo) (ReferenceUpdate.Old branchUpdate)
                (ReferenceUpdate.New branchUpdate) = Inr False)"
  using assms
  by (cases "IsAncestor c (Repository.GitUID repo) (ReferenceUpdate.Old branchUpdate)
               (ReferenceUpdate.New branchUpdate)")
     (simp_all add: reportBranchEvent_def)

text \<open>The ancestry query fails: the update is reported as forced.\<close>

theorem reportBranchEvent_forced_witness:
  "\<exists>payload.
     reportBranchEvent (ex_githook (Inl (Error ''git failed''))) ex_repo 42
       \<lparr>ReferenceUpdate.Ref = ''refs/heads/feature'', Old = ''a1'', New = ''b2''\<rparr> [] =
       [BranchUpdated payload] \<and>
     BranchUpdatedPayload.Forced payload"
proof -
  have old: "ReferenceUpdate.Old
      \<lparr>ReferenceUpdate.Ref = ''refs/heads/feature'', Old = ''a1'', New = ''b2''\<rparr> \<noteq> NilSHA"
    and new: "ReferenceUpdate.New
      \<lparr>ReferenceUpdate.Ref = ''refs/heads/feature'', Old = ''a1'', New = ''b2''\<rparr> \<noteq> NilSHA"
    by (simp_all add: NilSHA_def)
  show ?thesis
    using reportBranchEvent_forced [OF old new, of "ex_githook (Inl (Error ''git failed''))" ex_repo 42 "[]"]
    by (auto simp: ex_githook_def)
qed

lemma suggestPullRequest_default_branch:
  "suggestPullRequest Sprintf c repo (DefaultBranch repo) out = out"
  by (simp add: suggestPullRequest_def)

text \<open>
  C9. The pull-request suggestion is produced only for a push of exactly one reference
  update whose reference has the prefix \<open>refs/heads/\<close>, whose new hash is not nil and
  whose branch is not the default branch of the repository; every other push leaves the
  hook output as it is.
\<close>

theorem handlePRMessaging_other_pushes:
  assumes "\<not> suggestionPush repo inp"
  shows "handlePRMessaging Sprintf c repo inp out = out"
proof (cases "RefUpdates inp")
  case Nil
  then show ?thesis by (simp add: handlePRMessaging_def)
next
  case (Cons refUpdate rest)
  show ?thesis
  proof (cases rest)
    case Nil
    with Cons assms show ?thesis
      by (auto simp: handlePRMessaging_def suggestionPush_def gitReferenceNamePrefixBranch_def
            suggestPullRequest_default_branch Let_def)
  next
    case (Cons refUpdate' rest')
    with \<open>RefUpdates inp = refUpdate # rest\<close> show ?thesis
      by (simp add: handlePRMessaging_def)
  qed
qed

text \<open>A push of three references, and a push to the default branch.\<close>

theorem handlePRMessaging_other_pushes_witness:
  "handlePRMessaging ex_Sprintf (ex_githook (Inr True)) ex_repo
     \<lparr>RefUpdates =
        [\<lparr>ReferenceUpdate.Ref = ''refs/heads/a'', Old = NilSHA, New = ''a1''\<rparr>,
         \<lparr>ReferenceUpdate.Ref = ''refs/heads/b'', Old = NilSHA, New = ''b2''\<rparr>,
         \<lparr>ReferenceUpdate.Ref = ''refs/tags/v1'', Old = NilSHA, New = ''c3''\<rparr>]\<rparr>
     \<lparr>Messages = []\<rparr> = \<lparr>Messages = []\<rparr> \<and>
   handlePRMessaging ex_Sprintf (ex_githook (Inr True)) ex_repo
     \<lparr>RefUpdates = [\<lparr>ReferenceUpdate.Ref = ''refs/heads/main'', Old = ''a1'', New = ''b2''\<rparr>]\<rparr>
     \<lparr>Messages = []\<rparr> = \<lparr>Messages = []\<rparr>"
  using handlePRMessaging_other_pushes
    [where repo = ex_repo
       and inp = "\<lparr>RefUpdates =
           [\<lparr>ReferenceUpdate.Ref = ''refs/heads/a'', Old = NilSHA, New = ''a1''\<rparr>,
            \<lparr>ReferenceUpdate.Ref = ''refs/heads/b'', Old = NilSHA, New = ''b2''\<rparr>,
            \<lparr>ReferenceUpdate.Ref = ''refs/tags/v1'', Old = NilSHA, New = ''c3''\<rparr>]\<rparr>"
       and c = "ex_githook (Inr True)" and out = "\<lparr>Messages = []\<rparr>"
       and Sprintf = ex_Sprintf]
    handlePRMessaging_other_pushes
    [where repo = ex_repo
       and inp = "\<lparr>RefUpdates =
           [\<lparr>ReferenceUpdate.Ref = ''refs/heads/main'', Old = ''a1'', New = ''b2''\<rparr>]\<rparr>"
       and c = "ex_githook (Inr True)" and out = "\<lparr>Messages = []\<rparr>"
       and Sprintf = ex_Sprintf]
  by (simp add: suggestionPush_def ex_repo_def HasPrefix_def)

text \<open>A push to another branch without open pull requests is answered with the suggestion.\<close>

lemma handlePRMessaging_suggests:
  "handlePRMessaging Sprintf (ex_githook (Inr True)) ex_repo
     \<lparr>RefUpdates = [\<lparr>ReferenceUpdate.Ref = ''refs/heads/feature'', Old = ''a1'', New = ''b2''\<rparr>]\<rparr>
     \<lparr>Messages = []\<rparr> =
   \<lparr>Messages =
      [Sprintf ''Create a new PR for branch %q'' [ArgString ''feature''],
       ''  https://git.example/space/repo/pulls/compare/main...feature'']\<rparr>"
  by (simp add: handlePRMessaging_def suggestPullRequest_def ex_githook_def ex_repo_def
        HasPrefix_def gitReferenceNamePrefixBranch_def NilSHA_def Let_def)

section \<open>Properties of the head-ref synchronizer\<close>




section \<open>Properties of Update\<close>

lemmas TrimSpace_eval = TrimSpace_def TrimLeft_def TrimRight_def trimLeading.simps
  leadingWidth_def whiteSpace_def

text \<open>
  A no-break space (U+00A0) in front, an ideographic space (U+3000) and a line feed
  behind: all are trimmed. A broken encoding in front stays.
\<close>

lemma TrimSpace_unicode:
  "TrimSpace ([CHR 0xC2, CHR 0xA0] @ ''  Fix parser '' @ [CHR 0xE3, CHR 0x80, CHR 0x80, CHR 0x0A]) =
     ''Fix parser''"
  "TrimSpace [CHR 0xE2, CHR 0xC2, CHR 0xA0] = [CHR 0xE2]"
  by (simp_all add: TrimSpace_eval)

lemma Check_cases:
  "Check inp =
     (if TrimSpace (UpdateInput.Title inp) = []
      then (inp\<lparr>UpdateInput.Title := []\<rparr>, Some (BadRequest ''pull request title can't be empty''))
      else (\<lparr>UpdateInput.Title = TrimSpace (UpdateInput.Title inp),
             UpdateInput.Description = TrimSpace (UpdateInput.Description inp)\<rparr>, None))"
  by (simp add: Check_def Let_def)

lemma Update_found:
  assumes repo: "repoStoreFindByRef c repoRef = Inr repo"
    and pr: "pullreqStore st (Repository.ID repo, pullreqNum) = Some pr"
    and title: "TrimSpace (UpdateInput.Title inp) \<noteq> []"
    and ref: "repoRef \<noteq> []"
    and imp: "\<not> Importing repo"
    and push: "CheckRepo c session repo PermissionRepoPush = None"
    and src: "sourceAccess c session pr = None"
  shows "Update c st session repoRef pullreqNum inp =
     (if PullReq.Title pr = TrimSpace (UpdateInput.Title inp) \<and>
         PullReq.Description pr = TrimSpace (UpdateInput.Description inp)
      then (st, Some pr, None)
      else
        (case UpdateOptLock st pr (\<lambda>pr'. Inr
                  (pr'\<lparr>PullReq.Title := TrimSpace (UpdateInput.Title inp),
                       PullReq.Description := TrimSpace (UpdateInput.Description inp),
                       Edited := Now c,
                       ActivitySeq :=
                         (if TrimSpace (UpdateInput.Title inp) \<noteq> PullReq.Title pr
                          then ActivitySeq pr' + 1 else ActivitySeq pr')\<rparr>)) of
           (st', Inl err) \<Rightarrow> (st', None, Some (Errorf ''failed to update pull request: %w'' err))
         | (st', Inr pr') \<Rightarrow>
             ((if PublishError c = None
               then \<lambda>s. s\<lparr>sseStreamer := sseStreamer s @ [(Repository.ParentID repo, pr')]\<rparr>
               else (\<lambda>s. s))
               (if TrimSpace (UpdateInput.Title inp) \<noteq> PullReq.Title pr \<and>
                   CreateWithPayloadError c = None
                then st'\<lparr>activityStore := activityStore st' @
                       [(pr', Principal.ID (Principal session),
                         \<lparr>Old = PullReq.Title pr, New = PullReq.Title pr'\<rparr>)]\<rparr>
                else st'),
              Some pr', None)))"
  using src
  by (simp add: Update_def Check_cases title getRepoCheckAccess_def ref repo imp push
        FindByNumber_def pr Let_def sourceAccess_def split: prod.splits sum.splits)

lemma Update_success_conditions:
  assumes run: "snd (snd (Update c st session repoRef pullreqNum inp)) = None"
    and repo: "repoStoreFindByRef c repoRef = Inr repo"
    and pr: "pullreqStore st (Repository.ID repo, pullreqNum) = Some pr"
  shows "TrimSpace (UpdateInput.Title inp) \<noteq> [] \<and> repoRef \<noteq> [] \<and> \<not> Importing repo \<and>
         CheckRepo c session repo PermissionRepoPush = None \<and> sourceAccess c session pr = None"
proof -
  have title: "TrimSpace (UpdateInput.Title inp) \<noteq> []"
    using run by (auto simp: Update_def Check_cases)
  have ref: "repoRef \<noteq> []"
    using run title by (auto simp: Update_def Check_cases getRepoCheckAccess_def)
  have imp: "\<not> Importing repo"
    using run title ref repo by (auto simp: Update_def Check_cases getRepoCheckAccess_def)
  have push: "CheckRepo c session repo PermissionRepoPush = None"
    using run title ref repo imp
    by (cases "CheckRepo c session repo PermissionRepoPush")
       (auto simp: Update_def Check_cases getRepoCheckAccess_def)
  have src: "sourceAccess c session pr = None"
    using run title ref repo imp push pr
    by (cases "sourceAccess c session pr")
       (auto simp: Update_def Check_cases getRepoCheckAccess_def FindByNumber_def
          sourceAccess_def split: if_splits sum.splits option.splits)
  from title ref imp push src show ?thesis by simp
qed

text \<open>
  C6, as amended. For every successful \<open>Update\<close> call that changes the title of the
  pull request, the activity sequence counter is incremented by one, in the pull
  request that is returned and in the pull request that is stored; a successful call
  that leaves the title as it is leaves the counter as it is, also when it changes the
  description.
\<close>

theorem Update_activity_sequence:
  assumes run: "Update c st session repoRef pullreqNum inp = (st', Some pr', None)"
    and repo: "repoStoreFindByRef c repoRef = Inr repo"
    and pr: "pullreqStore st (Repository.ID repo, pullreqNum) = Some pr"
  shows "(TrimSpace (UpdateInput.Title inp) \<noteq> PullReq.Title pr \<longrightarrow>
            pr' = pr\<lparr>PullReq.Title := TrimSpace (UpdateInput.Title inp),
                     PullReq.Description := TrimSpace (UpdateInput.Description inp),
                     Edited := Now c,
                     ActivitySeq := ActivitySeq pr + 1,
                     Version := Version pr + 1\<rparr> \<and>
            pullreqStore st' =
              (pullreqStore st)((PullReq.TargetRepoID pr, PullReq.Number pr) \<mapsto> pr')) \<and>
         (TrimSpace (UpdateInput.Title inp) = PullReq.Title pr \<and>
          TrimSpace (UpdateInput.Description inp) \<noteq> PullReq.Description pr \<longrightarrow>
            pr' = pr\<lparr>PullReq.Description := TrimSpace (UpdateInput.Description inp),
                     Edited := Now c,
                     Version := Version pr + 1\<rparr> \<and>
            ActivitySeq pr' = ActivitySeq pr \<and>
            pullreqStore st' =
              (pullreqStore st)((PullReq.TargetRepoID pr, PullReq.Number pr) \<mapsto> pr')) \<and>
         (TrimSpace (UpdateInput.Title inp) = PullReq.Title pr \<and>
          TrimSpace (UpdateInput.Description inp) = PullReq.Description pr \<longrightarrow>
            pr' = pr \<and> st' = st)"
proof -
  let ?title = "TrimSpace (UpdateInput.Title inp)"
  let ?description = "TrimSpace (UpdateInput.Description inp)"
  let ?mutate = "\<lambda>pr'. pr'\<lparr>PullReq.Title := ?title,
                       PullReq.Description := ?description,
                       Edited := Now c,
                       ActivitySeq :=
                         (if ?title \<noteq> PullReq.Title pr
                          then ActivitySeq pr' + 1 else ActivitySeq pr')\<rparr>"
  from run have "snd (snd (Update c st session repoRef pullreqNum inp)) = None" by simp
  from Update_success_conditions [OF this repo pr]
  have found: "Update c st session repoRef pullreqNum inp =
     (if PullReq.Title pr = ?title \<and> PullReq.Description pr = ?description
      then (st, Some pr, None)
      else
        (case UpdateOptLock st pr (\<lambda>pr'. Inr (?mutate pr')) of
           (st', Inl err) \<Rightarrow> (st', None, Some (Errorf ''failed to update pull request: %w'' err))
         | (st', Inr pr') \<Rightarrow>
             ((if PublishError c = None
               then \<lambda>s. s\<lparr>sseStreamer := sseStreamer s @ [(Repository.ParentID repo, pr')]\<rparr>
               else (\<lambda>s. s))
               (if ?title \<noteq> PullReq.Title pr \<and> CreateWithPayloadError c = None
                then st'\<lparr>activityStore := activityStore st' @
                       [(pr', Principal.ID (Principal session),
                         \<lparr>Old = PullReq.Title pr, New = PullReq.Title pr'\<rparr>)]\<rparr>
                else st'),
              Some pr', None)))"
    by (intro Update_found [OF repo pr]) simp_all
  show ?thesis
  proof (cases "PullReq.Title pr = ?title \<and> PullReq.Description pr = ?description")
    case True
    with run found show ?thesis by auto
  next
    case False
    with run found obtain st1 where
      lock: "UpdateOptLock st pr (\<lambda>pr'. Inr (?mutate pr')) = (st1, Inr pr')"
      and stores: "pullreqStore st' = pullreqStore st1"
      by (auto split: prod.splits sum.splits if_splits)
    from lock have result: "pr' = (?mutate pr)\<lparr>Version := Version pr + 1\<rparr>"
      and stored: "pullreqStore st1 =
        (pullreqStore st)((PullReq.TargetRepoID pr, PullReq.Number pr) \<mapsto> pr')"
      by (auto simp: UpdateOptLock_def Let_def split: option.splits if_splits)
    from False result stored stores show ?thesis
      by auto
  qed
qed

text \<open>A new title, with white space around it, for the stored pull request.\<close>

theorem Update_activity_sequence_witness:
  "Update ex_controller ex_stores ex_session ''space/repo'' 1
     \<lparr>UpdateInput.Title = '' Fix lexer '', UpdateInput.Description = ''old text''\<rparr> =
     (ex_stores
        \<lparr>pullreqStore := (pullreqStore ex_stores)((7, 1) \<mapsto>
            ex_pr\<lparr>PullReq.Title := ''Fix lexer'', Edited := 1000, ActivitySeq := 6, Version := 2\<rparr>),
         activityStore :=
           [(ex_pr\<lparr>PullReq.Title := ''Fix lexer'', Edited := 1000, ActivitySeq := 6, Version := 2\<rparr>,
             42, \<lparr>Old = ''Fix parser'', New = ''Fix lexer''\<rparr>)],
         sseStreamer :=
           [(3, ex_pr\<lparr>PullReq.Title := ''Fix lexer'', Edited := 1000, ActivitySeq := 6,
                      Version := 2\<rparr>)]\<rparr>,
      Some (ex_pr\<lparr>PullReq.Title := ''Fix lexer'', Edited := 1000, ActivitySeq := 6, Version := 2\<rparr>),
      None) \<and>
   ActivitySeq (ex_pr\<lparr>PullReq.Title := ''Fix lexer'', Edited := 1000, ActivitySeq := 6,
                      Version := 2\<rparr>) = ActivitySeq ex_pr + 1"
proof -
  have run: "Update ex_controller ex_stores ex_session ''space/repo'' 1
          \<lparr>UpdateInput.Title = '' Fix lexer '', UpdateInput.Description = ''old text''\<rparr> =
     (ex_stores
        \<lparr>pullreqStore := (pullreqStore ex_stores)((7, 1) \<mapsto>
            ex_pr\<lparr>PullReq.Title := ''Fix lexer'', Edited := 1000, ActivitySeq := 6, Version := 2\<rparr>),
         activityStore :=
           [(ex_pr\<lparr>PullReq.Title := ''Fix lexer'', Edited := 1000, ActivitySeq := 6, Version := 2\<rparr>,
             42, \<lparr>Old = ''Fix parser'', New = ''Fix lexer''\<rparr>)],
         sseStreamer :=
           [(3, ex_pr\<lparr>PullReq.Title := ''Fix lexer'', Edited := 1000, ActivitySeq := 6,
                      Version := 2\<rparr>)]\<rparr>,
      Some (ex_pr\<lparr>PullReq.Title := ''Fix lexer'', Edited := 1000, ActivitySeq := 6, Version := 2\<rparr>),
      None)"
    by (simp add: Update_def Check_def TrimSpace_eval getRepoCheckAccess_def
        FindByNumber_def UpdateOptLock_def ex_controller_def ex_stores_def ex_repo_def ex_pr_def
        ex_session_def Let_def)
  have repo: "repoStoreFindByRef ex_controller ''space/repo'' = Inr ex_repo"
    by (simp add: ex_controller_def)
  have pr: "pullreqStore ex_stores (Repository.ID ex_repo, 1) = Some ex_pr"
    by (simp add: ex_stores_def ex_repo_def)
  have "ActivitySeq (ex_pr\<lparr>PullReq.Title := ''Fix lexer'', Edited := 1000, ActivitySeq := 6,
                      Version := 2\<rparr>) = ActivitySeq ex_pr + 1"
    using Update_activity_sequence [OF run repo pr]
    by (simp add: TrimSpace_eval ex_pr_def)
  with run show ?thesis
    by simp
qed

text \<open>
  C6 as stated fails: a successful call that changes only the description leaves the
  activity sequence counter at its value.
\<close>

theorem Update_description_only:
  "snd (Update ex_controller ex_stores ex_session ''space/repo'' 1
          \<lparr>UpdateInput.Title = ''Fix parser'', UpdateInput.Description = ''new text''\<rparr>) =
     (Some (ex_pr\<lparr>PullReq.Description := ''new text'', Edited := 1000, Version := 2\<rparr>), None) \<and>
   PullReq.Description ex_pr \<noteq> ''new text'' \<and>
   ActivitySeq (ex_pr\<lparr>PullReq.Description := ''new text'', Edited := 1000, Version := 2\<rparr>) =
     ActivitySeq ex_pr"
  by (simp add: Update_def Check_def TrimSpace_eval getRepoCheckAccess_def
        FindByNumber_def UpdateOptLock_def ex_controller_def ex_stores_def ex_repo_def ex_pr_def
        ex_session_def Let_def)

text \<open>
  C10. For every \<open>Update\<close> call whose trimmed title and description equal those of the
  stored pull request, the stores are left as they are, so the optimistic-lock update
  is not made and version, activity sequence, edited timestamp, title and description
  of the pull request are unchanged; a call that returns no error returns the stored
  pull request, and the call returns no error when the title is not empty and the
  access checks pass.
\<close>

theorem Update_unchanged:
  assumes repo: "repoStoreFindByRef c repoRef = Inr repo"
    and pr: "pullreqStore st (Repository.ID repo, pullreqNum) = Some pr"
    and title: "PullReq.Title pr = TrimSpace (UpdateInput.Title inp)"
    and description: "PullReq.Description pr = TrimSpace (UpdateInput.Description inp)"
  shows "fst (Update c st session repoRef pullreqNum inp) = st \<and>
         (snd (snd (Update c st session repoRef pullreqNum inp)) = None \<longrightarrow>
            fst (snd (Update c st session repoRef pullreqNum inp)) = Some pr) \<and>
         (TrimSpace (UpdateInput.Title inp) \<noteq> [] \<and> repoRef \<noteq> [] \<and> \<not> Importing repo \<and>
          CheckRepo c session repo PermissionRepoPush = None \<and>
          sourceAccess c session pr = None \<longrightarrow>
            Update c st session repoRef pullreqNum inp = (st, Some pr, None))"
proof (intro conjI impI)
  show "fst (Update c st session repoRef pullreqNum inp) = st"
    using repo pr title description
    by (auto simp: Update_def Check_cases getRepoCheckAccess_def FindByNumber_def
          split: sum.splits option.splits if_splits)
next
  assume ok: "snd (snd (Update c st session repoRef pullreqNum inp)) = None"
  from Update_success_conditions [OF ok repo pr]
  have "Update c st session repoRef pullreqNum inp = (st, Some pr, None)"
    using title description by (subst Update_found [OF repo pr]) simp_all
  then show "fst (snd (Update c st session repoRef pullreqNum inp)) = Some pr" by simp
next
  assume "TrimSpace (UpdateInput.Title inp) \<noteq> [] \<and> repoRef \<noteq> [] \<and> \<not> Importing repo \<and>
          CheckRepo c session repo PermissionRepoPush = None \<and>
          sourceAccess c session pr = None"
  then show "Update c st session repoRef pullreqNum inp = (st, Some pr, None)"
    using title description by (subst Update_found [OF repo pr]) simp_all
qed

text \<open>
  The stored title and description, sent again with white space around them, a no-break
  space (U+00A0) among it.
\<close>

theorem Update_unchanged_witness:
  "Update ex_controller ex_stores ex_session ''space/repo'' 1
     \<lparr>UpdateInput.Title = CHR 0xC2 # CHR 0xA0 # '' Fix parser '',
      UpdateInput.Description = '' old text''\<rparr> =
   (ex_stores, Some ex_pr, None)"
proof -
  have repo: "repoStoreFindByRef ex_controller ''space/repo'' = Inr ex_repo"
    by (simp add: ex_controller_def)
  have pr: "pullreqStore ex_stores (Repository.ID ex_repo, 1) = Some ex_pr"
    by (simp add: ex_stores_def ex_repo_def)
  have title: "PullReq.Title ex_pr = TrimSpace (UpdateInput.Title
      \<lparr>UpdateInput.Title = CHR 0xC2 # CHR 0xA0 # '' Fix parser '',
      UpdateInput.Description = '' old text''\<rparr>)"
    by (simp add: ex_pr_def TrimSpace_eval)
  have description: "PullReq.Description ex_pr = TrimSpace (UpdateInput.Description
      \<lparr>UpdateInput.Title = CHR 0xC2 # CHR 0xA0 # '' Fix parser '',
      UpdateInput.Description = '' old text''\<rparr>)"
    by (simp add: ex_pr_def TrimSpace_eval)
  show ?thesis
    using Update_unchanged [OF repo pr title description, of ex_session]
    by (simp add: TrimSpace_eval ex_repo_def ex_controller_def sourceAccess_def ex_pr_def)
qed

end
